theory Spec2Isabelle
  imports Complex_Main "HOL-Library.AList"
begin

section \<open>Strings\<close>

text \<open>
  A JavaScript string is a sequence of UTF-16 code units; \<open>length\<close> counts code units and a
  regular expression without the \<open>u\<close> flag works on code units. A code unit is a natural number
  here, and \<open>str\<close> embeds an ASCII literal of the source.
\<close>

type_synonym jsstring = "nat list"

definition str :: "string \<Rightarrow> jsstring" where
  "str s = map of_char s"

text \<open>The class \<open>\s\<close> of a JavaScript regular expression; \<open>trim\<close> strips the same set.\<close>

definition isWs :: "nat \<Rightarrow> bool" where
  "isWs c \<longleftrightarrow> c \<in> {9, 10, 11, 12, 13, 32, 160, 5760, 8232, 8233, 8239, 8287, 12288, 65279}
     \<or> (8192 \<le> c \<and> c \<le> 8202)"

text \<open>The class \<open>\w\<close>: ASCII letters, digits and the underscore.\<close>

definition isWordChar :: "nat \<Rightarrow> bool" where
  "isWordChar c \<longleftrightarrow> (48 \<le> c \<and> c \<le> 57) \<or> (65 \<le> c \<and> c \<le> 90) \<or> c = 95 \<or> (97 \<le> c \<and> c \<le> 122)"

definition trim :: "jsstring \<Rightarrow> jsstring" where
  "trim s = rev (dropWhile isWs (rev (dropWhile isWs s)))"

text \<open>\<open>s.replace(/\s+/g, ' ')\<close>: every maximal run of whitespace becomes one space.\<close>

fun collapseWs :: "jsstring \<Rightarrow> jsstring" where
  "collapseWs [] = []"
| "collapseWs [c] = (if isWs c then [32] else [c])"
| "collapseWs (c # d # cs) =
     (if isWs c then (if isWs d then collapseWs (d # cs) else 32 # collapseWs (d # cs))
      else c # collapseWs (d # cs))"

text \<open>
  \<open>String.prototype.toLowerCase\<close> on the ASCII range. \<open>safeFolderName\<close> applies it to a string
  that holds nothing but \<open>[A-Za-z0-9_-]\<close> and spaces (lemma \<open>folderCore_charset\<close>).
\<close>

definition toLowerCase :: "jsstring \<Rightarrow> jsstring" where
  "toLowerCase s = map (\<lambda>c. if 65 \<le> c \<and> c \<le> 90 then c + 32 else c) s"

section \<open>safeFolderName\<close>

text \<open>
  \<open>(name || 'Client')\<close>: a missing (\<open>undefined\<close>, \<open>null\<close>) or empty name is replaced by the
  literal. \<open>None\<close> is the missing name.
\<close>

definition nameOrClient :: "jsstring option \<Rightarrow> jsstring" where
  "nameOrClient name = (case name of None \<Rightarrow> str ''Client'' | Some n \<Rightarrow> if n = [] then str ''Client'' else n)"

text \<open>
  The value of \<open>s\<close> after line 294 of \<open>server.js\<close>. \<open>String.prototype.normalize('NFKD')\<close> is the
  runtime's Unicode table, taken as the parameter \<open>nfkd\<close>.
  \<^item> \<open>.replace(/[^\w\-]/g, ' ')\<close> maps every code unit outside \<open>[A-Za-z0-9_-]\<close> to a space;
  \<^item> \<open>.replace(/[.#]+$/g, '')\<close> drops a trailing run of dots and hashes;
  \<^item> \<open>.replace(/^\.+/g, '')\<close> drops a leading run of dots.
\<close>

definition folderCore :: "(jsstring \<Rightarrow> jsstring) \<Rightarrow> jsstring option \<Rightarrow> jsstring" where
  "folderCore nfkd name =
     (let s0 = trim (collapseWs (map (\<lambda>c. if isWordChar c \<or> c = 45 then c else 32) (nfkd (nameOrClient name))));
          s1 = rev (dropWhile (\<lambda>c. c = 46 \<or> c = 35) (rev s0))
      in dropWhile (\<lambda>c. c = 46) s1)"

definition safeFolderName :: "(jsstring \<Rightarrow> jsstring) \<Rightarrow> jsstring option \<Rightarrow> jsstring" where
  "safeFolderName nfkd name =
     (let s = folderCore nfkd name;
          s' = (if s = [] \<or> toLowerCase s = str ''forms'' then str ''Client'' else s)
      in if length s' > 100 then trim (take 100 s') else s')"

section \<open>Coordinate resolver\<close>

text \<open>
  A page selector is the string \<open>'last'\<close>, a number, or missing (\<open>undefined\<close>, \<open>null\<close>).
  Page numbers are integers.
\<close>

datatype page_sel = PLast | PNum int | PNone

text \<open>
  \<open>getSafePage\<close> returns \<open>pdfDoc.getPage(idx)\<close>; pdf-lib's \<open>getPage\<close> raises when the index
  is outside \<open>[0, count - 1]\<close>. The result is that error, or the index of the page together with
  the flag that says whether the warning was logged.
\<close>

definition getSafePage :: "nat \<Rightarrow> page_sel \<Rightarrow> unit + (nat \<times> bool)" where
  "getSafePage count wantedPage =
     (let idx = (case wantedPage of
                   PLast \<Rightarrow> int count - 1
                 | PNum n \<Rightarrow> min (max 0 ((if n = 0 then 1 else n) - 1)) (int count - 1)
                 | PNone \<Rightarrow> min (max 0 (1 - 1)) (int count - 1));
          warned = (case wantedPage of PNum n \<Rightarrow> count \<noteq> 0 \<and> idx \<noteq> n - 1 | _ \<Rightarrow> False)
      in if 0 \<le> idx \<and> idx < int count then Inr (nat idx, warned) else Inl ())"

section \<open>Signature geometry\<close>

text \<open>
  A property of a coordinates object: absent, \<open>null\<close>, or a value. The request body is JSON,
  so an override can carry an explicit \<open>null\<close>, which the spread \<open>{...t, ...o}\<close> copies over
  the template's value.
\<close>

datatype 'a jsprop = Missing | Null | Val 'a

text \<open>
  \<open>{ page, x, y, width, height, origin }\<close>. A page that is absent or \<open>null\<close> is \<open>PNone\<close>:
  line 317 treats the two alike.
\<close>

record coords =
  cpage :: page_sel
  cx :: "real jsprop"
  cy :: "real jsprop"
  cwidth :: "real jsprop"
  cheight :: "real jsprop"
  corigin :: "jsstring jsprop"

definition noCoords :: coords where
  "noCoords = \<lparr>cpage = PNone, cx = Missing, cy = Missing, cwidth = Missing, cheight = Missing,
                corigin = Missing\<rparr>"

text \<open>One property of \<open>{ ...(t || {}), ...(o || {}) }\<close>.\<close>

definition spread :: "'a jsprop \<Rightarrow> 'a jsprop \<Rightarrow> 'a jsprop" where
  "spread t ov = (case ov of Missing \<Rightarrow> t | _ \<Rightarrow> ov)"

text \<open>\<open>v || d\<close> on a numeric property: \<open>undefined\<close>, \<open>null\<close> and 0 are falsy.\<close>

definition numOr :: "real jsprop \<Rightarrow> real \<Rightarrow> real" where
  "numOr p d = (case p of Val v \<Rightarrow> if v = 0 then d else v | _ \<Rightarrow> d)"

text \<open>\<open>Number.isFinite(v) ? v : 0\<close>.\<close>

definition finiteOr0 :: "real jsprop \<Rightarrow> real" where
  "finiteOr0 p = (case p of Val v \<Rightarrow> v | _ \<Rightarrow> 0)"

text \<open>\<open>s || 'top-left'\<close>.\<close>

definition originOr :: "jsstring jsprop \<Rightarrow> jsstring" where
  "originOr p = (case p of Val s \<Rightarrow> if s = [] then str ''top-left'' else s | _ \<Rightarrow> str ''top-left'')"

text \<open>A loaded PDF, as far as the geometry reads it: the width and height of each page.\<close>

type_synonym pdfDoc = "(real \<times> real) list"

record sigbox =
  rpage :: page_sel
  rx :: real
  ry :: real
  rwidth :: real
  rheight :: real
  rorigin :: jsstring

definition resolveSignatureCoords :: "pdfDoc \<Rightarrow> coords option \<Rightarrow> coords option \<Rightarrow> unit + sigbox" where
  "resolveSignatureCoords pdfDoc templateCoords override =
     (let t = (case templateCoords of None \<Rightarrow> noCoords | Some c \<Rightarrow> c);
          ov = (case override of None \<Rightarrow> noCoords | Some c \<Rightarrow> c);
          page = (if cpage ov \<noteq> PNone then cpage ov
                  else if cpage t \<noteq> PNone then cpage t else PLast)
      in case getSafePage (length pdfDoc) page of
           Inl e \<Rightarrow> Inl e
         | Inr (i, warned) \<Rightarrow>
             let width = max 1 (numOr (spread (cwidth t) (cwidth ov)) 150);
                 height = max 1 (numOr (spread (cheight t) (cheight ov)) 50);
                 origin = originOr (spread (corigin t) (corigin ov));
                 x = finiteOr0 (spread (cx t) (cx ov));
                 y = finiteOr0 (spread (cy t) (cy ov))
             in Inr \<lparr>rpage = page,
                     rx = min (max 0 x) (fst (pdfDoc ! i) - width),
                     ry = min (max 0 y) (snd (pdfDoc ! i) - height),
                     rwidth = width, rheight = height, rorigin = origin\<rparr>)"

text \<open>
  What \<open>stampSignatureWithTime\<close> draws: the rectangle it passes to \<open>drawImage\<close> on page
  \<open>dpage\<close>, and the height \<open>dlabelY\<close> of the label line. \<open>png\<close> is the embedded image's native
  width and height, \<open>None\<close> when \<open>embedPng\<close> raises. Reading \<open>inPath\<close> and writing \<open>outPath\<close>
  belong to the request handlers below.
\<close>

record drawn =
  dpage :: nat
  dx :: real
  dy :: real
  dwidth :: real
  dheight :: real
  dlabelY :: real

definition stampSignatureWithTime ::
  "pdfDoc \<Rightarrow> (real \<times> real) option \<Rightarrow> coords option \<Rightarrow> coords option \<Rightarrow> unit + drawn" where
  "stampSignatureWithTime pdfDoc png templateCoords overrideCoords =
     (case resolveSignatureCoords pdfDoc templateCoords overrideCoords of
        Inl e \<Rightarrow> Inl e
      | Inr c \<Rightarrow>
          (case getSafePage (length pdfDoc) (rpage c) of
             Inl e \<Rightarrow> Inl e
           | Inr (i, warned) \<Rightarrow>
               (case png of
                  None \<Rightarrow> Inl ()
                | Some (pw, ph) \<Rightarrow>
                    let width = (if rwidth c \<noteq> 0 then rwidth c else pw);
                        height = (if rheight c \<noteq> 0 then rheight c else ph);
                        y = (if rorigin c = str ''top-left'' then snd (pdfDoc ! i) - ry c - height
                             else ry c)
                    in Inr \<lparr>dpage = i, dx = rx c, dy = y, dwidth = width, dheight = height,
                            dlabelY = y - 14\<rparr>)))"

text \<open>A property that holds a value, and a coordinates object without width and height.\<close>

definition isVal :: "'a jsprop \<Rightarrow> bool" where
  "isVal p = (case p of Val v \<Rightarrow> True | _ \<Rightarrow> False)"

definition noSize :: "coords option \<Rightarrow> bool" where
  "noSize c = (case c of None \<Rightarrow> True | Some c \<Rightarrow> \<not> isVal (cwidth c) \<and> \<not> isVal (cheight c))"

section \<open>Word wrapping\<close>

text \<open>
  \<open>String(text).split(/\s+/)\<close>: the pieces between maximal runs of whitespace. The first and
  the last piece are empty when the text starts or ends with whitespace; the empty text gives
  one empty piece.
\<close>

fun splitWs :: "jsstring \<Rightarrow> jsstring list" where
  "splitWs [] = [[]]"
| "splitWs (c # cs) =
     (if isWs c then (if cs \<noteq> [] \<and> isWs (hd cs) then splitWs cs else [] # splitWs cs)
      else (case splitWs cs of [] \<Rightarrow> [[c]] | t # ts \<Rightarrow> (c # t) # ts))"

text \<open>The words of a string: its non-empty pieces.\<close>

definition wordsOf :: "jsstring \<Rightarrow> jsstring list" where
  "wordsOf s = filter (\<lambda>t. t \<noteq> []) (splitWs s)"

text \<open>
  The loop of \<open>wrapLines\<close> with its final push, over the remaining words, the current \<open>line\<close>
  and the \<open>lines\<close> pushed so far. \<open>wd\<close> is \<open>font.widthOfTextAtSize\<close>: the metrics of the embedded
  font belong to pdf-lib and are a parameter.
\<close>

fun wrapLoop ::
  "(jsstring \<Rightarrow> real \<Rightarrow> real) \<Rightarrow> real \<Rightarrow> real \<Rightarrow> jsstring list \<Rightarrow> jsstring \<Rightarrow> jsstring list
     \<Rightarrow> jsstring list" where
  "wrapLoop wd sz mw [] line lines = (if line \<noteq> [] then lines @ [line] else lines)"
| "wrapLoop wd sz mw (w # ws) line lines =
     (let test = (if line \<noteq> [] then line @ [32] @ w else w) in
      if wd test sz \<le> mw then wrapLoop wd sz mw ws test lines
      else wrapLoop wd sz mw ws w (if line \<noteq> [] then lines @ [line] else lines))"

text \<open>\<open>maxWidth\<close> is a number or missing; \<open>!maxWidth\<close> holds for a missing one and for 0.\<close>

definition wrapLines ::
  "(jsstring \<Rightarrow> real \<Rightarrow> real) \<Rightarrow> jsstring \<Rightarrow> real \<Rightarrow> real option \<Rightarrow> jsstring list" where
  "wrapLines wd txt sz maxWidth =
     (case maxWidth of
        None \<Rightarrow> [txt]
      | Some mw \<Rightarrow> if mw = 0 then [txt] else wrapLoop wd sz mw (splitWs txt) [] [])"

text \<open>
  A sample metric for worked examples: every code unit is half an em wide. Helvetica's own
  widths are positive too, which is all the examples use.
\<close>

definition halfEm :: "jsstring \<Rightarrow> real \<Rightarrow> real" where
  "halfEm t sz = real (length t) * sz / 2"

section \<open>Template input mapping\<close>

text \<open>
  The flat string attributes of an agreement record, by name, and its \<open>submittedAt\<close> date in
  milliseconds since the epoch. A lookup of a name that is not there is \<open>undefined\<close>.
\<close>

record agreementData =
  attrs :: "(string \<times> jsstring) list"
  submittedAt :: "nat option"

record plan =
  pname :: "jsstring option"
  pprice :: "real option"

record addOn =
  aname :: "jsstring option"
  aprice :: "real option"

record summaryData =
  smService :: "jsstring option"
  smPlan :: "plan option"
  smAddOns :: "addOn list option"
  smTotal :: "real option"

text \<open>
  What the mapper reads besides its arguments: the clock (\<open>Date.now()\<close>, \<open>new Date()\<close>) and the
  runtime's formatting of dates and numbers, which depends on the process's locale and time
  zone.
\<close>

record jsclock =
  dateNow :: nat
  toLocaleString :: "nat \<Rightarrow> jsstring"
  toLocaleDateString :: "nat \<Rightarrow> jsstring"
  numToString :: "real \<Rightarrow> jsstring"
  toFixed2 :: "real \<Rightarrow> jsstring"

text \<open>\<open>agreementData.k || ''\<close>.\<close>

definition fld :: "agreementData \<Rightarrow> string \<Rightarrow> jsstring" where
  "fld ad k = (case map_of (attrs ad) k of Some v \<Rightarrow> v | None \<Rightarrow> [])"

text \<open>\<open>a || b\<close> on strings: the empty string is falsy.\<close>

definition orElse :: "jsstring \<Rightarrow> jsstring \<Rightarrow> jsstring" where
  "orElse a b = (if a \<noteq> [] then a else b)"

text \<open>The object \<open>base\<close>: its keys in insertion order. \<open>base.k\<close> reads, \<open>base.k = v\<close> writes.\<close>

type_synonym jsobject = "(string \<times> jsstring) list"

definition getp :: "jsobject \<Rightarrow> string \<Rightarrow> jsstring" where
  "getp b k = (case map_of b k of Some v \<Rightarrow> v | None \<Rightarrow> [])"

definition assign :: "string \<Rightarrow> (jsobject \<Rightarrow> jsstring) \<Rightarrow> jsobject \<Rightarrow> jsobject" where
  "assign k f b = AList.update k (f b) b"

text \<open>The object literal of lines 538 to 574.\<close>

definition baseLiteral :: "jsclock \<Rightarrow> agreementData \<Rightarrow> jsobject" where
  "baseLiteral clk ad =
     [(''businessName'', fld ad ''businessName''),
      (''tradingName'', fld ad ''tradingName''),
      (''clientFullName'', fld ad ''clientFullName''),
      (''dateOfBirth'', fld ad ''dateOfBirth''),
      (''email'', fld ad ''email''),
      (''phone'', fld ad ''phone''),
      (''registeredOffice'', fld ad ''registeredOffice''),
      (''registeredPostCode'', fld ad ''registeredPostCode''),
      (''postalAddress'', fld ad ''postalAddress''),
      (''postalPostCode'', fld ad ''postalPostCode''),
      (''businessAddress'', fld ad ''businessAddress''),
      (''businessPostCode'', fld ad ''businessPostCode''),
      (''departmentContact'', fld ad ''departmentContact''),
      (''contactNumber'', fld ad ''contactNumber''),
      (''departmentEmail'', fld ad ''departmentEmail''),
      (''officeNumber'', fld ad ''officeNumber''),
      (''nameOfDirector'', fld ad ''nameOfDirector''),
      (''addressOfDirector'', fld ad ''addressOfDirector''),
      (''driversLicense'', fld ad ''driversLicense''),
      (''acn_abn'', fld ad ''acn_abn''),
      (''mainService'', fld ad ''mainService''),
      (''contractStart'', fld ad ''contractStartDate''),
      (''contractStartDate'', fld ad ''contractStartDate''),
      (''businessType'', fld ad ''businessType''),
      (''ACN'', fld ad ''ACN''),
      (''ABN'', fld ad ''ABN''),
      (''address'', fld ad ''address''),
      (''city'', fld ad ''city''),
      (''state'', fld ad ''state''),
      (''postalCode'', fld ad ''postalCode''),
      (''website'', fld ad ''website''),
      (''additionalNotes'', fld ad ''additionalNotes''),
      (''submittedAt'',
         toLocaleString clk (case submittedAt ad of Some t \<Rightarrow> t | None \<Rightarrow> dateNow clk))]"

text \<open>\<open>xs.join(', ')\<close>.\<close>

fun joinComma :: "jsstring list \<Rightarrow> jsstring" where
  "joinComma [] = []"
| "joinComma [x] = x"
| "joinComma (x # y # ys) = x @ str '', '' @ joinComma (y # ys)"

text \<open>A template literal prints a missing value as \<open>undefined\<close>.\<close>

definition addOnText :: "jsclock \<Rightarrow> addOn \<Rightarrow> jsstring" where
  "addOnText clk a =
     (case aname a of None \<Rightarrow> str ''undefined'' | Some n \<Rightarrow> n) @ str '' ($''
     @ (case aprice a of None \<Rightarrow> str ''undefined'' | Some p \<Rightarrow> numToString clk p) @ str '')''"

definition dollars :: "jsclock \<Rightarrow> real option \<Rightarrow> jsstring" where
  "dollars clk v = (case v of Some p \<Rightarrow> str ''$'' @ toFixed2 clk p | None \<Rightarrow> [])"

text \<open>The assignments of lines 596 to 601, for the template \<open>PricingSchedule\<close> with a summary.\<close>

definition pricingAssignments :: "jsclock \<Rightarrow> summaryData \<Rightarrow> (jsobject \<Rightarrow> jsobject) list" where
  "pricingAssignments clk sm =
     (let addOnsSummary =
            joinComma (map (addOnText clk) (case smAddOns sm of None \<Rightarrow> [] | Some xs \<Rightarrow> xs))
      in [assign ''service''
            (\<lambda>b. orElse (case smService sm of None \<Rightarrow> [] | Some s \<Rightarrow> s) (getp b ''servicesAssist'')),
          assign ''planName''
            (\<lambda>b. case smPlan sm of None \<Rightarrow> []
                  | Some p \<Rightarrow> (case pname p of None \<Rightarrow> [] | Some n \<Rightarrow> n)),
          assign ''planPrice''
            (\<lambda>b. case smPlan sm of None \<Rightarrow> [] | Some p \<Rightarrow> dollars clk (pprice p)),
          assign ''addOnsSummary'' (\<lambda>b. addOnsSummary),
          assign ''total'' (\<lambda>b. dollars clk (smTotal sm))])"

definition buildTemplateInput ::
  "jsclock \<Rightarrow> jsstring \<Rightarrow> agreementData \<Rightarrow> summaryData option \<Rightarrow> jsobject" where
  "buildTemplateInput clk templateName agreementData summaryData =
     fold (\<lambda>stmt b. stmt b)
       ([assign ''companyName'' (\<lambda>b. getp b ''businessName''),
         assign ''dearName'' (\<lambda>b. getp b ''businessName''),
         assign ''customerName'' (\<lambda>b. getp b ''businessName''),
         assign ''clientEmail'' (\<lambda>b. getp b ''email''),
         assign ''mobileNumber'' (\<lambda>b. getp b ''phone''),
         assign ''postCode''
           (\<lambda>b. orElse (getp b ''registeredPostCode'')
                  (orElse (getp b ''postalPostCode'') (getp b ''businessPostCode''))),
         assign ''p4CompanyName'' (\<lambda>b. getp b ''businessName''),
         assign ''servicesAssist'' (\<lambda>b. getp b ''mainService''),
         assign ''directorName'' (\<lambda>b. getp b ''nameOfDirector''),
         assign ''p5ClientName'' (\<lambda>b. getp b ''clientFullName''),
         assign ''p5OtherName'' (\<lambda>b. getp b ''directorName''),
         assign ''p5Date1'' (\<lambda>b. takeWhile (\<lambda>c. c \<noteq> 44) (getp b ''submittedAt'')),
         assign ''p5Date2'' (\<lambda>b. takeWhile (\<lambda>c. c \<noteq> 44) (getp b ''submittedAt'')),
         assign ''guarantorCompany'' (\<lambda>b. getp b ''businessName''),
         assign ''guarantorACNABN''
           (\<lambda>b. orElse (getp b ''ACN'') (orElse (getp b ''ABN'') (getp b ''acn_abn'')))]
        @ (case summaryData of
             Some sm \<Rightarrow> if templateName = str ''PricingSchedule'' then pricingAssignments clk sm else []
           | None \<Rightarrow> [])
        @ (if templateName = str ''ConfidentialityAgreement''
           then [assign ''executedDate'' (\<lambda>b. toLocaleDateString clk (dateNow clk))] else []))
       (baseLiteral clk agreementData)"

text \<open>
  Sample formatting for worked examples: the \<open>en-US\<close> rendering, in UTC, of an instant of the
  first two days of the epoch. The two number formats are not exercised by the examples.
\<close>

definition sampleClock :: "nat \<Rightarrow> jsclock" where
  "sampleClock now =
     \<lparr>dateNow = now,
      toLocaleString = (\<lambda>t. (if t < 86400000 then str ''1/1/1970'' else str ''1/2/1970'')
                             @ str '', 12:00:00 AM''),
      toLocaleDateString = (\<lambda>t. if t < 86400000 then str ''1/1/1970'' else str ''1/2/1970''),
      numToString = (\<lambda>r. str ''0''),
      toFixed2 = (\<lambda>r. str ''0.00'')\<rparr>"

section \<open>Field renderer\<close>

text \<open>
  A placement of a field map: \<open>{ page, x, y, size, origin, maxWidth, lineHeight }\<close>, the
  optional properties as options. The colour is left out.
\<close>

record placement =
  fpage :: "int option"
  fx :: real
  fy :: real
  fsize :: "real option"
  forigin :: "jsstring option"
  fmaxWidth :: "real option"
  flineHeight :: "real option"

text \<open>Every placement of the registry has a page, a size and the origin \<open>'top-left'\<close>.\<close>

definition fieldAt :: "int \<Rightarrow> real \<Rightarrow> real \<Rightarrow> real \<Rightarrow> real option \<Rightarrow> placement" where
  "fieldAt p x y sz mw =
     \<lparr>fpage = Some p, fx = x, fy = y, fsize = Some sz, forigin = Some (str ''top-left''),
      fmaxWidth = mw, flineHeight = None\<rparr>"

text \<open>One call of \<open>p.drawText\<close>: the page, \<open>x\<close>, \<open>y\<close>, the size and the text.\<close>

record textDraw =
  tpage :: nat
  tx :: real
  ty :: real
  tsize :: real
  ttext :: jsstring

definition drawOnePlacement ::
  "(jsstring \<Rightarrow> real \<Rightarrow> real) \<Rightarrow> nat \<Rightarrow> real \<Rightarrow> placement \<Rightarrow> jsstring \<Rightarrow> textDraw list" where
  "drawOnePlacement wd pageIdx pageHeight spec v =
     (let sz = (case fsize spec of None \<Rightarrow> 10 | Some s \<Rightarrow> s);
          lineHeight = (case flineHeight spec of None \<Rightarrow> 12 / 10 | Some h \<Rightarrow> h);
          y = (if forigin spec = Some (str ''top-left'') then pageHeight - fy spec else fy spec)
      in case fmaxWidth spec of
           None \<Rightarrow> [\<lparr>tpage = pageIdx, tx = fx spec, ty = y, tsize = sz, ttext = v\<rparr>]
         | Some mw \<Rightarrow>
             if mw = 0 then [\<lparr>tpage = pageIdx, tx = fx spec, ty = y, tsize = sz, ttext = v\<rparr>]
             else map (\<lambda>(i, line). \<lparr>tpage = pageIdx, tx = fx spec,
                                       ty = y - real i * (sz * lineHeight), tsize = sz, ttext = line\<rparr>)
                    (enumerate 0 (wrapLines wd v sz (Some mw))))"

text \<open>The placements of one field: \<open>getSafePage(pdfDoc, spec.page || 1)\<close>, then the drawing.\<close>

fun drawPlacements ::
  "(jsstring \<Rightarrow> real \<Rightarrow> real) \<Rightarrow> pdfDoc \<Rightarrow> placement list \<Rightarrow> jsstring \<Rightarrow> unit + textDraw list" where
  "drawPlacements wd pdfDoc [] v = Inr []"
| "drawPlacements wd pdfDoc (spec # specs) v =
     (case getSafePage (length pdfDoc)
             (PNum (case fpage spec of None \<Rightarrow> 1 | Some n \<Rightarrow> if n = 0 then 1 else n)) of
        Inl e \<Rightarrow> Inl e
      | Inr (i, warned) \<Rightarrow>
          (case drawPlacements wd pdfDoc specs v of
             Inl e \<Rightarrow> Inl e
           | Inr ds \<Rightarrow> Inr (drawOnePlacement wd i (snd (pdfDoc ! i)) spec v @ ds)))"

text \<open>
  The texts \<open>drawFieldsOnPdf\<close> draws on the loaded template, in order: the loop over the
  entries of the field map. A field whose input is missing or empty is skipped.
\<close>

fun drawFieldsOnPdf ::
  "(jsstring \<Rightarrow> real \<Rightarrow> real) \<Rightarrow> pdfDoc \<Rightarrow> (string \<times> placement list) list
     \<Rightarrow> (string \<times> jsstring) list \<Rightarrow> unit + textDraw list" where
  "drawFieldsOnPdf wd pdfDoc [] inputData = Inr []"
| "drawFieldsOnPdf wd pdfDoc ((k, placements) # fm) inputData =
     (let v = (case map_of inputData k of None \<Rightarrow> [] | Some s \<Rightarrow> s) in
      if v = [] then drawFieldsOnPdf wd pdfDoc fm inputData
      else (case drawPlacements wd pdfDoc placements v of
              Inl e \<Rightarrow> Inl e
            | Inr ds \<Rightarrow>
                (case drawFieldsOnPdf wd pdfDoc fm inputData of
                   Inl e \<Rightarrow> Inl e
                 | Inr ds' \<Rightarrow> Inr (ds @ ds'))))"

section \<open>Template registry\<close>

record template =
  tname :: jsstring
  tpath :: jsstring
  fieldMap :: "(string \<times> placement list) list"
  clientSig :: coords
  directorSig :: "coords option"
  director1Sig :: "coords option"

text \<open>Every signature anchor of the registry is 150 by 50 with the origin \<open>'top-left'\<close>.\<close>

definition sigAnchor :: "int \<Rightarrow> real \<Rightarrow> real \<Rightarrow> coords" where
  "sigAnchor p x y =
     \<lparr>cpage = PNum p, cx = Val x, cy = Val y, cwidth = Val 150, cheight = Val 50,
      corigin = Val (str ''top-left'')\<rparr>"

definition fieldMap_ServiceAgreement :: "(string \<times> placement list) list" where
  "fieldMap_ServiceAgreement =
     [(''businessName'', [fieldAt 2 171 563 10 None]),
      (''tradingName'', [fieldAt 2 171 540 10 None]),
      (''clientFullName'', [fieldAt 2 171 484 10 None]),
      (''dateOfBirth'', [fieldAt 2 171 462 10 None]),
      (''email'', [fieldAt 2 169 450 10 (Some 260)]),
      (''phone'', [fieldAt 2 405 484 10 None]),
      (''registeredOffice'', [fieldAt 2 171 395 10 None]),
      (''registeredPostCode'', [fieldAt 2 405 395 10 None]),
      (''postalAddress'', [fieldAt 2 171 347 10 None]),
      (''postalPostCode'', [fieldAt 2 405 347 10 None]),
      (''businessAddress'', [fieldAt 2 171 297 10 None]),
      (''businessPostCode'', [fieldAt 2 405 297 10 None]),
      (''departmentContact'', [fieldAt 2 171 259 10 None]),
      (''contactNumber'', [fieldAt 2 405 259 10 None]),
      (''departmentEmail'', [fieldAt 2 171 237 10 None]),
      (''officeNumber'', [fieldAt 2 405 450 10 None]),
      (''nameOfDirector'', [fieldAt 2 171 217 10 None]),
      (''addressOfDirector'', [fieldAt 2 405 217 10 None]),
      (''driversLicense'', [fieldAt 2 171 195 10 None]),
      (''ACN'', [fieldAt 2 405 566 10 None]),
      (''ABN'', [fieldAt 2 405 521 10 None]),
      (''acn_abn'', [fieldAt 2 171 170 10 None]),
      (''mainService'', [fieldAt 4 319 554 11 None]),
      (''contractStartDate'', [fieldAt 3 182 428 10 None]),
      (''JobType'', [fieldAt 3 182 400 10 None]),
      (''businessType'', [fieldAt 2 171 150 10 None]),
      (''address'', [fieldAt 2 2 130 10 None]),
      (''city'', [fieldAt 2 171 110 10 None]),
      (''state'', [fieldAt 2 171 90 10 None]),
      (''postalCode'', [fieldAt 2 405 90 10 None]),
      (''website'', [fieldAt 2 171 70 10 None]),
      (''additionalNotes'', [fieldAt 2 171 50 10 (Some 260)]),
      (''planName'', [fieldAt 1 150 620 10 None]),
      (''planPrice'', [fieldAt 1 420 620 10 None]),
      (''addOns'', [fieldAt 1 150 600 10 (Some 360)]),
      (''total'', [fieldAt 1 420 580 12 None])]"

definition template_ServiceAgreement :: template where
  "template_ServiceAgreement =
     \<lparr>tname = str ''ServiceAgreement'', tpath = str ''Engagement-letter.pdf'', fieldMap = fieldMap_ServiceAgreement,
      clientSig = sigAnchor 4 338 125,
      directorSig = Some (sigAnchor 4 338 72),
      director1Sig = None\<rparr>"

definition fieldMap_CustomerInformation :: "(string \<times> placement list) list" where
  "fieldMap_CustomerInformation =
     [(''businessName'', [fieldAt 1 388 616 10 None]),
      (''ACN'', [fieldAt 1 101 605 10 None]),
      (''ABN'', [fieldAt 1 101 563 10 None]),
      (''directorName'', [fieldAt 1 384 102 10 None]),
      (''submittedAt'', [fieldAt 1 338 74 10 None])]"

definition template_CustomerInformation :: template where
  "template_CustomerInformation =
     \<lparr>tname = str ''CustomerInformation'', tpath = str ''guarantee-page.pdf'', fieldMap = fieldMap_CustomerInformation,
      clientSig = sigAnchor 1 338 125,
      directorSig = Some (sigAnchor 1 64 466),
      director1Sig = Some (sigAnchor 1 350 466)\<rparr>"

definition fieldMap_PricingSchedule :: "(string \<times> placement list) list" where
  "fieldMap_PricingSchedule =
     [(''businessName'', [fieldAt 1 150 660 10 None]),
      (''service'', [fieldAt 1 150 640 10 None]),
      (''planName'', [fieldAt 1 150 620 10 None]),
      (''planPrice'', [fieldAt 1 420 620 10 None]),
      (''addOnsSummary'', [fieldAt 1 150 600 10 (Some 360)]),
      (''total'', [fieldAt 1 420 580 12 None])]"

definition template_PricingSchedule :: template where
  "template_PricingSchedule =
     \<lparr>tname = str ''PricingSchedule'', tpath = str ''privacy-policy.pdf'', fieldMap = fieldMap_PricingSchedule,
      clientSig = sigAnchor 1 420 90,
      directorSig = Some (sigAnchor 1 420 40),
      director1Sig = None\<rparr>"

definition fieldMap_ConfidentialityAgreement :: "(string \<times> placement list) list" where
  "fieldMap_ConfidentialityAgreement =
     [(''businessName'', [fieldAt 4 120 362 10 None]),
      (''date'', [fieldAt 4 430 630 10 None]),
      (''ACN'', [fieldAt 4 406 608 10 None]),
      (''ABN'', [fieldAt 4 406 563 10 None])]"

definition template_ConfidentialityAgreement :: template where
  "template_ConfidentialityAgreement =
     \<lparr>tname = str ''ConfidentialityAgreement'', tpath = str ''terms.pdf'', fieldMap = fieldMap_ConfidentialityAgreement,
      clientSig = sigAnchor 4 380 80,
      directorSig = Some (sigAnchor 4 63 466),
      director1Sig = Some (sigAnchor 4 350 466)\<rparr>"

definition TEMPLATES :: "template list" where
  "TEMPLATES = [template_ServiceAgreement,
     template_CustomerInformation,
     template_PricingSchedule,
     template_ConfidentialityAgreement]"

text \<open>\<open>TEMPLATES.find(t => t.name === name)\<close>.\<close>

definition findTemplate :: "jsstring \<Rightarrow> template option" where
  "findTemplate n = List.find (\<lambda>t. tname t = n) TEMPLATES"

text \<open>
  \<open>y + 60\<close> on a property: \<open>null + 60\<close> is 60, and \<open>undefined + 60\<close> is \<open>NaN\<close>, which the
  resolver treats like \<open>null\<close>.
\<close>

definition plus60 :: "real jsprop \<Rightarrow> real jsprop" where
  "plus60 p = (case p of Val v \<Rightarrow> Val (v + 60) | Null \<Rightarrow> Val 60 | Missing \<Rightarrow> Null)"

definition getDirectorSigSpec :: "template option \<Rightarrow> nat \<Rightarrow> coords option" where
  "getDirectorSigSpec template directorIndex =
     (case template of
        None \<Rightarrow> None
      | Some t \<Rightarrow>
          if directorIndex = 0 \<and> directorSig t \<noteq> None then directorSig t
          else if directorIndex = 1 \<and> director1Sig t \<noteq> None then director1Sig t
          else if directorIndex = 1 \<and> directorSig t \<noteq> None
            then map_option (\<lambda>c. c\<lparr>cy := plus60 (cy c)\<rparr>) (directorSig t)
          else (case directorSig t of Some c \<Rightarrow> Some c | None \<Rightarrow> director1Sig t))"

section \<open>Agreements\<close>

text \<open>The claims of a capability token. A client token carries no \<open>directorIndex\<close>.\<close>

datatype tokenRole = Client | Director

record claims =
  agid :: jsstring
  docName :: jsstring
  role :: tokenRole
  directorIndex :: "nat option"

text \<open>
  The records of the three schemas, with the fields the handlers read or write. A path, a
  token or a date that is not set is \<open>None\<close>. Dates are milliseconds since the epoch.
\<close>

record directorSlot =
  email :: jsstring
  directorSignToken :: "jsstring option"
  signatureImagePath :: "jsstring option"
  signature :: "jsstring option"
  signed :: bool
  signedDate :: "nat option"

record document =
  dname :: jsstring
  draftPdfPath :: "jsstring option"
  clientSignedPdfPath :: "jsstring option"
  finalSignedPdfPath :: "jsstring option"
  clientSignatureImagePath :: "jsstring option"
  clientSignToken :: "jsstring option"
  clientSigned :: bool
  clientSignedDate :: "nat option"
  clientSignature :: "jsstring option"
  directorSigned :: bool
  directors :: "directorSlot list"

text \<open>
  An agreement: its business attributes and \<open>submittedAt\<close> (\<open>agData\<close>, what
  \<open>agreement.toObject()\<close> hands to the mapper), its documents and the aggregate flags. Its
  \<open>_id\<close> is the key under which the store holds it.
\<close>

record agreement =
  agData :: agreementData
  documents :: "document list"
  agClientSignToken :: "jsstring option"
  agClientSigned :: bool
  agDirectorSigned :: bool
  agClientSignedDate :: "nat option"
  agDirectorSignedDate :: "nat option"

text \<open>The persisted state: the agreements of the store by id, and the files on disk.\<close>

record world =
  agreements :: "jsstring \<Rightarrow> agreement option"
  files :: "jsstring set"

text \<open>
  What a request reads from outside the store and the disk.
  \<^item> \<open>jwt_verify\<close>, \<open>jwt_sign\<close>: \<open>jwt.verify\<close> and \<open>jwt.sign\<close> under the process's secret;
    \<open>Inl\<close> is the message of the error \<open>jwt.verify\<close> raises.
  \<^item> \<open>drawRaises templatePath input outPath\<close>, \<open>stampRaises inPath signature outPath\<close>: the
    message of the error pdf-lib raises while \<open>drawFieldsOnPdf\<close> or \<open>stampSignatureWithTime\<close>
    runs on those files, \<open>None\<close> when it completes.
  \<^item> \<open>findSummary\<close>: \<open>Summary.findOne({ email }).sort({ createdAt: -1 })\<close>.
  \<^item> \<open>clock\<close>: the clock and the formats; \<open>nowIso\<close> is \<open>new Date().toISOString()\<close>.
  \<^item> \<open>newObjectId\<close>: the \<open>_id\<close> of a new agreement.
\<close>

record env =
  jwt_verify :: "jsstring \<Rightarrow> jsstring + claims"
  jwt_sign :: "claims \<Rightarrow> jsstring"
  drawRaises :: "jsstring \<Rightarrow> (string \<times> jsstring) list \<Rightarrow> jsstring \<Rightarrow> jsstring option"
  stampRaises :: "jsstring \<Rightarrow> jsstring \<Rightarrow> jsstring \<Rightarrow> jsstring option"
  findSummary :: "jsstring option \<Rightarrow> summaryData option"
  clock :: jsclock
  nowIso :: jsstring
  newObjectId :: jsstring
  unicodeNFKD :: "jsstring \<Rightarrow> jsstring"
  ROOT_DIR :: jsstring
  PUBLIC_WEB_URL :: jsstring
  DIRECTOR_EMAILS :: "jsstring option"
  DIRECTOR_EMAIL :: "jsstring option"

text \<open>The body of a signing request, and what a handler answers.\<close>

record signRequest =
  reqToken :: jsstring
  reqSignature :: "jsstring option"
  reqCoords :: "coords option"

datatype response =
    Rejected nat jsstring
  | NextDocToken jsstring
  | Complete
  | Done
  | PdfStream jsstring
  | Submitted "jsstring list"

section \<open>Helpers\<close>

text \<open>The index of the first element that satisfies \<open>P\<close>: \<open>Array.prototype.find\<close> by position.\<close>

fun findIndex :: "('a \<Rightarrow> bool) \<Rightarrow> 'a list \<Rightarrow> nat option" where
  "findIndex P [] = None"
| "findIndex P (x # xs) = (if P x then Some 0 else map_option Suc (findIndex P xs))"

definition truthy :: "jsstring option \<Rightarrow> bool" where
  "truthy s = (case s of None \<Rightarrow> False | Some v \<Rightarrow> v \<noteq> [])"

text \<open>\<open>String(n)\<close> for a natural number.\<close>

function decimal :: "nat \<Rightarrow> jsstring" where
  "decimal n = (if n < 10 then [48 + n] else decimal (n div 10) @ [48 + n mod 10])"
  by pat_completeness auto
termination
  by (relation "measure id") auto

declare decimal.simps [simp del]

text \<open>\<open>s.split(',')\<close>.\<close>

fun splitComma :: "jsstring \<Rightarrow> jsstring list" where
  "splitComma [] = [[]]"
| "splitComma (c # cs) =
     (if c = 44 then [] # splitComma cs
      else (case splitComma cs of [] \<Rightarrow> [[c]] | t # ts \<Rightarrow> (c # t) # ts))"

definition getDirectorEmails :: "env \<Rightarrow> jsstring list" where
  "getDirectorEmails e =
     (let multi = filter (\<lambda>s. s \<noteq> [])
                    (map trim (splitComma (case DIRECTOR_EMAILS e of None \<Rightarrow> [] | Some s \<Rightarrow> s)))
      in if multi \<noteq> [] then multi
         else if truthy (DIRECTOR_EMAIL e) then [the (DIRECTOR_EMAIL e)] else [])"

text \<open>\<open>path.join(dir, file)\<close> for a file name without \<open>.\<close> and \<open>..\<close> segments.\<close>

definition pathJoin :: "jsstring \<Rightarrow> jsstring \<Rightarrow> jsstring" where
  "pathJoin dir f = dir @ str ''/'' @ f"

definition PDF_DIR :: "env \<Rightarrow> jsstring" where
  "PDF_DIR e = pathJoin (ROOT_DIR e) (str ''pdfs'')"

definition SIG_DIR :: "env \<Rightarrow> jsstring" where
  "SIG_DIR e = pathJoin (ROOT_DIR e) (str ''signatures'')"

definition PDF_TEMPLATES_DIR :: "env \<Rightarrow> jsstring" where
  "PDF_TEMPLATES_DIR e = pathJoin (ROOT_DIR e) (str ''pdf-templates'')"

text \<open>\<open>nowIso().replace(/[:.]/g, '-')\<close>.\<close>

definition tsOf :: "env \<Rightarrow> jsstring" where
  "tsOf e = map (\<lambda>c. if c = 58 \<or> c = 46 then 45 else c) (nowIso e)"

text \<open>\<open>safeFolderName(ag.businessName || 'Client')\<close>.\<close>

definition safeBusinessOf :: "env \<Rightarrow> agreement \<Rightarrow> jsstring" where
  "safeBusinessOf e ag =
     safeFolderName (unicodeNFKD e) (Some (orElse (fld (agData ag) ''businessName'') (str ''Client'')))"

text \<open>\<open>ag.save()\<close>: the store holds the whole agreement as it is in memory.\<close>

definition saveAgreement :: "world \<Rightarrow> jsstring \<Rightarrow> agreement \<Rightarrow> world" where
  "saveAgreement w aid ag = w\<lparr>agreements := (agreements w)(aid \<mapsto> ag)\<rparr>"

definition writeFile :: "world \<Rightarrow> jsstring \<Rightarrow> world" where
  "writeFile w p = w\<lparr>files := insert p (files w)\<rparr>"

text \<open>\<open>e.message || 'Failed to sign document.'\<close>.\<close>

definition signError :: "jsstring \<Rightarrow> response" where
  "signError msg = Rejected 500 (orElse msg (str ''Failed to sign document.''))"

section \<open>Self-healing of drafts\<close>

text \<open>
  \<open>ensureDraftExists(agreement, doc)\<close>, for the document at index \<open>i\<close> of the agreement stored
  under \<open>aid\<close>. It raises (\<open>Inl\<close>, the message) or returns the regenerated path; the agreement
  in memory and the persisted state come back updated.
\<close>

definition ensureDraftExists ::
  "env \<Rightarrow> world \<Rightarrow> jsstring \<Rightarrow> agreement \<Rightarrow> nat \<Rightarrow> jsstring + (jsstring \<times> agreement \<times> world)" where
  "ensureDraftExists e w aid ag i =
     (let doc = documents ag ! i in
      case findTemplate (dname doc) of
        None \<Rightarrow> Inl (str ''Template not found for '' @ dname doc)
      | Some t \<Rightarrow>
          if pathJoin (PDF_TEMPLATES_DIR e) (tpath t) \<notin> files w
          then Inl (str ''Template file missing: '' @ tpath t)
          else
            let templatePath = pathJoin (PDF_TEMPLATES_DIR e) (tpath t);
                summary = findSummary e (map_of (attrs (agData ag)) ''email'');
                input = buildTemplateInput (clock e) (dname doc) (agData ag) summary;
                outDraft = pathJoin (PDF_DIR e)
                  (str ''rehydrated-'' @ dname doc @ str ''-'' @ decimal (dateNow (clock e))
                   @ str ''.pdf'')
            in case drawRaises e templatePath input outDraft of
                 Some msg \<Rightarrow> Inl msg
               | None \<Rightarrow>
                   let w1 = writeFile w outDraft;
                       doc' = (if \<not> truthy (draftPdfPath doc)
                               then doc\<lparr>draftPdfPath := Some outDraft\<rparr> else doc);
                       ag' = ag\<lparr>documents := (documents ag)[i := doc']\<rparr>
                   in Inr (outDraft, ag', saveAgreement w1 aid ag'))"

section \<open>Client signing\<close>

text \<open>Lines 1024 to 1081: the next unsigned document, or the hand-over to the directors.\<close>

definition newDirectorSlot :: "env \<Rightarrow> jsstring \<Rightarrow> document \<Rightarrow> nat \<times> jsstring \<Rightarrow> directorSlot" where
  "newDirectorSlot e aid d p =
     \<lparr>email = snd p,
      directorSignToken =
        Some (jwt_sign e \<lparr>agid = aid, docName = dname d, role = Director,
                          directorIndex = Some (fst p)\<rparr>),
      signatureImagePath = None, signature = None, signed = False, signedDate = None\<rparr>"

definition clientChain :: "env \<Rightarrow> world \<Rightarrow> jsstring \<Rightarrow> agreement \<Rightarrow> response \<times> world" where
  "clientChain e w aid ag =
     (case findIndex (\<lambda>d. \<not> clientSigned d) (documents ag) of
        Some j \<Rightarrow>
          let nextDoc = documents ag ! j;
              nextToken = jwt_sign e \<lparr>agid = aid, docName = dname nextDoc, role = Client,
                                      directorIndex = None\<rparr>;
              ag' = ag\<lparr>documents := (documents ag)[j := nextDoc\<lparr>clientSignToken := Some nextToken\<rparr>]\<rparr>
          in (NextDocToken nextToken, saveAgreement w aid ag')
      | None \<Rightarrow>
          let directorEmails = getDirectorEmails e;
              ag' = ag\<lparr>documents :=
                         map (\<lambda>d. d\<lparr>directors := map (newDirectorSlot e aid d)
                                                    (enumerate 0 directorEmails)\<rparr>)
                           (documents ag),
                       agClientSigned := True,
                       agClientSignedDate := Some (dateNow (clock e))\<rparr>
          in (Complete, saveAgreement w aid ag'))"

text \<open>Lines 999 to 1005: the base file of the stamp, regenerated when it is not on disk.\<close>

definition clientBaseFile ::
  "env \<Rightarrow> world \<Rightarrow> jsstring \<Rightarrow> agreement \<Rightarrow> nat \<Rightarrow> jsstring + (jsstring \<times> agreement \<times> world)" where
  "clientBaseFile e w aid ag i =
     (let inFile = draftPdfPath (documents ag ! i) in
      if \<not> truthy inFile \<or> the inFile \<notin> files w
      then (case ensureDraftExists e w aid ag i of
              Inl msg \<Rightarrow> Inl msg
            | Inr (out, ag1, w1) \<Rightarrow>
                let ag2 = ag1\<lparr>documents :=
                               (documents ag1)[i := (documents ag1 ! i)\<lparr>draftPdfPath := Some out\<rparr>]\<rparr>
                in Inr (out, ag2, saveAgreement w1 aid ag2))
      else Inr (the inFile, ag, w))"

text \<open>Lines 1007 to 1022: the signature file, the stamp, the document's new state.\<close>

definition clientStamp ::
  "env \<Rightarrow> world \<Rightarrow> jsstring \<Rightarrow> agreement \<Rightarrow> nat \<Rightarrow> template \<Rightarrow> jsstring \<Rightarrow> jsstring
     \<Rightarrow> response \<times> world" where
  "clientStamp e w aid ag i t sig inFile =
     (let doc = documents ag ! i;
          sigPath = pathJoin (SIG_DIR e)
            (str ''client-sig-'' @ dname doc @ str ''-'' @ safeBusinessOf e ag @ str ''-'' @ tsOf e
             @ str ''-'' @ aid @ str ''.png'');
          w1 = writeFile w sigPath;
          outFile = pathJoin (PDF_DIR e)
            (str ''client-'' @ dname doc @ str ''-'' @ aid @ str ''-'' @ tsOf e @ str ''.pdf'')
      in case stampRaises e inFile sig outFile of
           Some msg \<Rightarrow> (signError msg, w1)
         | None \<Rightarrow>
             let w2 = writeFile w1 outFile;
                 doc' = doc\<lparr>clientSignatureImagePath := Some sigPath,
                            clientSignedPdfPath := Some outFile,
                            clientSigned := True,
                            clientSignature := Some sig,
                            clientSignedDate := Some (dateNow (clock e))\<rparr>;
                 ag' = ag\<lparr>documents := (documents ag)[i := doc']\<rparr>
             in clientChain e (saveAgreement w2 aid ag') aid ag')"

text \<open>\<open>app.post('/api/sign/:token')\<close>.\<close>

definition clientSign :: "env \<Rightarrow> world \<Rightarrow> signRequest \<Rightarrow> response \<times> world" where
  "clientSign e w req =
     (if \<not> truthy (reqSignature req) then (Rejected 400 (str ''Missing signature''), w)
      else case jwt_verify e (reqToken req) of
        Inl msg \<Rightarrow> (signError msg, w)
      | Inr decoded \<Rightarrow>
          if role decoded \<noteq> Client then (Rejected 403 (str ''Wrong link''), w)
          else case agreements w (agid decoded) of
            None \<Rightarrow> (Rejected 404 (str ''Agreement not found''), w)
          | Some ag \<Rightarrow>
              (case findIndex (\<lambda>d. dname d = docName decoded) (documents ag) of
                 None \<Rightarrow> (Rejected 404 (str ''Document not found''), w)
               | Some i \<Rightarrow>
                   if clientSigned (documents ag ! i)
                   then (Rejected 400 (str ''Document already signed''), w)
                   else case findTemplate (dname (documents ag ! i)) of
                     None \<Rightarrow>
                       (Rejected 500 (str ''Template not found for '' @ dname (documents ag ! i)), w)
                   | Some t \<Rightarrow>
                       (case clientBaseFile e w (agid decoded) ag i of
                          Inl msg \<Rightarrow> (signError msg, w)
                        | Inr (inFile, ag1, w1) \<Rightarrow>
                            clientStamp e w1 (agid decoded) ag1 i t (the (reqSignature req)) inFile)))"

section \<open>Director signing\<close>

text \<open>Lines 1156 to 1196: the director's next document, completion, or \<open>done\<close>.\<close>

definition directorPending :: "nat \<Rightarrow> document \<Rightarrow> bool" where
  "directorPending idx d \<longleftrightarrow>
     clientSigned d \<and> idx < length (directors d) \<and> \<not> signed (directors d ! idx)"

definition allDirectorsComplete :: "agreement \<Rightarrow> bool" where
  "allDirectorsComplete ag \<longleftrightarrow>
     list_all (\<lambda>d. clientSigned d \<and> directors d \<noteq> [] \<and> list_all signed (directors d))
       (documents ag)"

definition directorChain :: "env \<Rightarrow> world \<Rightarrow> jsstring \<Rightarrow> agreement \<Rightarrow> nat \<Rightarrow> response \<times> world" where
  "directorChain e w aid ag idx =
     (case findIndex (directorPending idx) (documents ag) of
        Some j \<Rightarrow>
          let nextDoc = documents ag ! j;
              slot = directors nextDoc ! idx
          in if \<not> truthy (directorSignToken slot)
             then
               let tok = jwt_sign e \<lparr>agid = aid, docName = dname nextDoc, role = Director,
                                     directorIndex = Some idx\<rparr>;
                   nextDoc' = nextDoc\<lparr>directors :=
                                (directors nextDoc)[idx := slot\<lparr>directorSignToken := Some tok\<rparr>]\<rparr>;
                   ag' = ag\<lparr>documents := (documents ag)[j := nextDoc']\<rparr>
               in (NextDocToken tok, saveAgreement w aid ag')
             else (NextDocToken (the (directorSignToken slot)), w)
      | None \<Rightarrow>
          if allDirectorsComplete ag
          then
            let ag' = ag\<lparr>agDirectorSigned := True,
                         agDirectorSignedDate := Some (dateNow (clock e))\<rparr>
            in (Complete, saveAgreement w aid ag')
          else (Done, w))"

text \<open>Lines 1123 to 1151: the anchor, the signature file, the base file, the stamp.\<close>

definition directorStamp ::
  "env \<Rightarrow> world \<Rightarrow> jsstring \<Rightarrow> agreement \<Rightarrow> nat \<Rightarrow> nat \<Rightarrow> jsstring \<Rightarrow> response \<times> world" where
  "directorStamp e w aid ag i idx sig =
     (let doc = documents ag ! i in
      case getDirectorSigSpec (findTemplate (dname doc)) idx of
        None \<Rightarrow> (Rejected 500 (str ''No signature coords for director #'' @ decimal (idx + 1)), w)
      | Some sigSpec \<Rightarrow>
          let sigPath = pathJoin (SIG_DIR e)
                (str ''director'' @ decimal (idx + 1) @ str ''-sig-'' @ dname doc @ str ''-''
                 @ safeBusinessOf e ag @ str ''-'' @ tsOf e @ str ''-'' @ aid @ str ''.png'');
              w1 = writeFile w sigPath;
              basePdf = (if truthy (finalSignedPdfPath doc) \<and> the (finalSignedPdfPath doc) \<in> files w1
                         then finalSignedPdfPath doc else clientSignedPdfPath doc)
          in if \<not> truthy basePdf \<or> the basePdf \<notin> files w1
             then (Rejected 500 (str ''Base PDF missing for '' @ dname doc), w1)
             else
               let outFile = pathJoin (PDF_DIR e)
                     (str ''final-'' @ dname doc @ str ''-d'' @ decimal (idx + 1) @ str ''-'' @ aid
                      @ str ''-'' @ tsOf e @ str ''.pdf'')
               in case stampRaises e (the basePdf) sig outFile of
                    Some msg \<Rightarrow> (signError msg, w1)
                  | None \<Rightarrow>
                      let w2 = writeFile w1 outFile;
                          dstate = (directors doc ! idx)
                                     \<lparr>signatureImagePath := Some sigPath,
                                      signature := Some sig,
                                      signed := True,
                                      signedDate := Some (dateNow (clock e))\<rparr>;
                          doc' = doc\<lparr>directors := (directors doc)[idx := dstate],
                                     finalSignedPdfPath := Some outFile\<rparr>;
                          ag' = ag\<lparr>documents := (documents ag)[i := doc']\<rparr>
                      in directorChain e (saveAgreement w2 aid ag') aid ag' idx)"

text \<open>\<open>app.post('/api/sign-director/:token')\<close>.\<close>

definition directorSign :: "env \<Rightarrow> world \<Rightarrow> signRequest \<Rightarrow> response \<times> world" where
  "directorSign e w req =
     (if \<not> truthy (reqSignature req) then (Rejected 400 (str ''Missing signature''), w)
      else case jwt_verify e (reqToken req) of
        Inl msg \<Rightarrow> (signError msg, w)
      | Inr decoded \<Rightarrow>
          if role decoded \<noteq> Director then (Rejected 403 (str ''Wrong link''), w)
          else
            let idx = (case directorIndex decoded of None \<Rightarrow> 0 | Some n \<Rightarrow> n) in
            case agreements w (agid decoded) of
              None \<Rightarrow> (Rejected 404 (str ''Agreement not found''), w)
            | Some ag \<Rightarrow>
                (case findIndex (\<lambda>d. dname d = docName decoded) (documents ag) of
                   None \<Rightarrow> (Rejected 400 (str ''Invalid document token''), w)
                 | Some i \<Rightarrow>
                     if \<not> clientSigned (documents ag ! i)
                     then (Rejected 400 (str ''Client must sign first''), w)
                     else if \<not> idx < length (directors (documents ag ! i))
                     then (Rejected 400 (str ''Director index '' @ decimal idx
                                         @ str '' not configured for this document.''), w)
                     else if signed (directors (documents ag ! i) ! idx)
                     then (Rejected 400 (str ''Document already signed by you''), w)
                     else directorStamp e w (agid decoded) ag i idx (the (reqSignature req))))"

section \<open>Preview\<close>

text \<open>\<open>a || b || c\<close> on optional paths.\<close>

definition firstTruthy :: "jsstring option list \<Rightarrow> jsstring option" where
  "firstTruthy ps = (case filter truthy ps of [] \<Rightarrow> None | p # qs \<Rightarrow> p)"

text \<open>\<open>app.get('/api/sign/preview/:token')\<close>.\<close>

definition preview :: "env \<Rightarrow> world \<Rightarrow> jsstring \<Rightarrow> response \<times> world" where
  "preview e w tok =
     (case jwt_verify e tok of
        Inl msg \<Rightarrow> (Rejected 404 (str ''PDF not found''), w)
      | Inr decoded \<Rightarrow>
          (case agreements w (agid decoded) of
             None \<Rightarrow> (Rejected 404 (str ''Agreement not found''), w)
           | Some ag \<Rightarrow>
               (case (if docName decoded \<noteq> []
                      then findIndex (\<lambda>d. dname d = docName decoded) (documents ag)
                      else if documents ag \<noteq> [] then Some 0 else None) of
                  None \<Rightarrow> (Rejected 404 (str ''Document not found''), w)
                | Some i \<Rightarrow>
                    let doc = documents ag ! i;
                        filePath =
                          (if role decoded = Client
                           then firstTruthy [clientSignedPdfPath doc, draftPdfPath doc,
                                             finalSignedPdfPath doc]
                           else firstTruthy [finalSignedPdfPath doc, clientSignedPdfPath doc,
                                             draftPdfPath doc])
                    in if \<not> truthy filePath \<or> the filePath \<notin> files w
                       then (case ensureDraftExists e w (agid decoded) ag i of
                               Inl msg \<Rightarrow> (Rejected 404 (str ''PDF not found''), w)
                             | Inr (out, ag1, w1) \<Rightarrow> (PdfStream out, w1))
                       else (PdfStream (the filePath), w))))"

section \<open>Submission\<close>






section \<open>Stores between requests\<close>


section \<open>Persisted stores\<close>







section \<open>A sample deployment\<close>

text \<open>
  Worked examples run the handlers on a small deployment: one agreement, stored under \<open>a1\<close>,
  two tokens that verify (a client's and the first director's, both for the document
  \<open>ServiceAgreement\<close>), one configured director, and a PDF library that raises nothing.
\<close>

definition sampleClaims :: "tokenRole \<Rightarrow> nat option \<Rightarrow> claims" where
  "sampleClaims r idx =
     \<lparr>agid = str ''a1'', docName = str ''ServiceAgreement'', role = r, directorIndex = idx\<rparr>"

definition sampleEnv :: env where
  "sampleEnv =
     \<lparr>jwt_verify = (\<lambda>tok.
        if tok = str ''client-token'' then Inr (sampleClaims Client None)
        else if tok = str ''director-token'' then Inr (sampleClaims Director (Some 0))
        else Inl (str ''jwt malformed'')),
      jwt_sign = (\<lambda>c. str ''token-for-'' @ docName c),
      drawRaises = (\<lambda>templatePath input outPath. None),
      stampRaises = (\<lambda>inPath sig outPath. None),
      findSummary = (\<lambda>mail. None),
      clock = sampleClock 0,
      nowIso = str ''1970-01-01T00:00:00.000Z'',
      newObjectId = str ''a1'',
      unicodeNFKD = (\<lambda>s. s),
      ROOT_DIR = str ''/app'',
      PUBLIC_WEB_URL = str ''https://example.org'',
      DIRECTOR_EMAILS = Some (str ''d@example.org''),
      DIRECTOR_EMAIL = None\<rparr>"

definition sampleDocument :: "jsstring \<Rightarrow> document" where
  "sampleDocument n =
     \<lparr>dname = n, draftPdfPath = Some (str ''/app/pdfs/draft-'' @ n @ str ''.pdf''),
      clientSignedPdfPath = None, finalSignedPdfPath = None,
      clientSignatureImagePath = None, clientSignToken = None,
      clientSigned = False, clientSignedDate = None, clientSignature = None,
      directorSigned = False, directors = []\<rparr>"

definition sampleAgreement :: "document list \<Rightarrow> agreement" where
  "sampleAgreement docs =
     \<lparr>agData = \<lparr>attrs = [(''businessName'', str ''Acme'')], submittedAt = Some 0\<rparr>,
      documents = docs, agClientSignToken = None, agClientSigned = False,
      agDirectorSigned = False, agClientSignedDate = None, agDirectorSignedDate = None\<rparr>"

definition sampleWorld :: "document list \<Rightarrow> jsstring set \<Rightarrow> world" where
  "sampleWorld docs fs = \<lparr>agreements = [str ''a1'' \<mapsto> sampleAgreement docs], files = fs\<rparr>"

definition sampleRequest :: "jsstring \<Rightarrow> signRequest" where
  "sampleRequest tok =
     \<lparr>reqToken = tok, reqSignature = Some (str ''data:image/png;base64,AAAA''), reqCoords = None\<rparr>"

definition signedSlot :: directorSlot where
  "signedSlot =
     \<lparr>email = str ''d@example.org'', directorSignToken = Some (str ''director-token''),
      signatureImagePath = Some (str ''/app/signatures/d.png''),
      signature = Some (str ''data:image/png;base64,AAAA''), signed = True, signedDate = Some 0\<rparr>"

text \<open>
  The four documents of a submission, drafted, none signed; with \<open>sampleWorld\<close> they are the
  agreement \<open>a1\<close>.
\<close>

definition samplePack :: "document list" where
  "samplePack =
     map sampleDocument
       [str ''ServiceAgreement'', str ''CustomerInformation'', str ''PricingSchedule'',
        str ''ConfidentialityAgreement'']"












section \<open>Consistency of the aggregate flags\<close>




text \<open>
  What holds of an agreement in every persisted store, the ones saved in the middle of a
  handler included: an aggregate flag that is set has the documents to show for it.
\<close>

definition flagsSound :: "agreement \<Rightarrow> bool" where
  "flagsSound ag \<longleftrightarrow>
     (agClientSigned ag \<longrightarrow> (\<forall>d\<in>set (documents ag). clientSigned d))
     \<and> (agDirectorSigned ag \<longrightarrow>
          (\<forall>d\<in>set (documents ag).
             clientSigned d \<and> directors d \<noteq> [] \<and> (\<forall>s\<in>set (directors d). signed s)))"

definition storeSound :: "world \<Rightarrow> bool" where
  "storeSound w \<longleftrightarrow> (\<forall>k ag. agreements w k = Some ag \<longrightarrow> flagsSound ag)"


section \<open>Properties of the string helpers\<close>

lemma dropWhile_none: "\<forall>x\<in>set xs. \<not> P x \<Longrightarrow> dropWhile P xs = xs"
  by (induction xs) auto

lemma set_collapseWs: "set (collapseWs s) \<subseteq> insert 32 (set s)"
  by (induction s rule: collapseWs.induct) auto

lemma set_trim: "set (trim s) \<subseteq> set s"
  by (auto simp: trim_def dest!: set_dropWhileD)

lemma rdr_prefix: "\<exists>zs. xs = rev (dropWhile P (rev xs)) @ zs"
  by (metis rev_append rev_rev_ident takeWhile_dropWhile_id)

lemma rdr_hd: "rev (dropWhile P (rev xs)) \<noteq> [] \<Longrightarrow> hd (rev (dropWhile P (rev xs))) = hd xs"
  by (metis hd_append2 rdr_prefix)

lemma rdr_last: "rev (dropWhile P (rev xs)) \<noteq> [] \<Longrightarrow> \<not> P (last (rev (dropWhile P (rev xs))))"
  by (metis hd_dropWhile last_rev rev_is_Nil_conv)

lemma rdr_nonempty: "xs \<noteq> [] \<Longrightarrow> \<not> P (hd xs) \<Longrightarrow> rev (dropWhile P (rev xs)) \<noteq> []"
  by (metis dropWhile_eq_self_iff rev_swap rev_append dropWhile_eq_Nil_conv append_Nil set_rev)

lemma trim_hd: "trim s \<noteq> [] \<Longrightarrow> \<not> isWs (hd (trim s))"
  by (metis dropWhile.simps(1) hd_dropWhile rdr_hd rev.simps(1) trim_def)

lemma trim_last: "trim s \<noteq> [] \<Longrightarrow> \<not> isWs (last (trim s))"
  unfolding trim_def by (rule rdr_last)

lemma trim_length: "length (trim s) \<le> length s"
  unfolding trim_def
  by (metis length_dropWhile_le length_rev order_trans)

lemma trim_take_nonempty:
  assumes "s \<noteq> []" "\<not> isWs (hd s)" "0 < n"
  shows "trim (take n s) \<noteq> []"
proof -
  have t: "take n s \<noteq> []" "hd (take n s) = hd s"
    using assms by (cases s; cases n; simp)+
  then have "dropWhile isWs (take n s) = take n s"
    using assms by (cases "take n s") auto
  then show ?thesis
    unfolding trim_def using rdr_nonempty[of "take n s" isWs] t assms by simp
qed

section \<open>The folder name\<close>

text \<open>
  After the first replacement nothing but \<open>[A-Za-z0-9_-]\<close> and spaces is left, so the two
  replacements of line 294 find no dot and no hash to remove.
\<close>

lemma folderCore_eq:
  "folderCore nfkd name =
     trim (collapseWs (map (\<lambda>c. if isWordChar c \<or> c = 45 then c else 32) (nfkd (nameOrClient name))))"
  and folderCore_charset: "\<forall>c\<in>set (folderCore nfkd name). isWordChar c \<or> c = 45 \<or> c = 32"
proof -
  let ?m = "map (\<lambda>c. if isWordChar c \<or> c = 45 then c else 32) (nfkd (nameOrClient name))"
  let ?s0 = "trim (collapseWs ?m)"
  have m: "\<forall>c\<in>set ?m. isWordChar c \<or> c = 45 \<or> c = 32" by auto
  have s0: "\<forall>c\<in>set ?s0. isWordChar c \<or> c = 45 \<or> c = 32"
    using set_trim[of "collapseWs ?m"] set_collapseWs[of ?m] m by blast
  have nd: "\<forall>c\<in>set ?s0. \<not> (c = 46 \<or> c = 35)"
    using s0 by (auto simp: isWordChar_def)
  have "rev (dropWhile (\<lambda>c. c = 46 \<or> c = 35) (rev ?s0)) = ?s0"
    using nd by (simp add: dropWhile_none)
  moreover have "dropWhile (\<lambda>c. c = 46) ?s0 = ?s0"
    using nd by (intro dropWhile_none) auto
  ultimately show e: "folderCore nfkd name = ?s0"
    by (simp add: folderCore_def Let_def)
  show "\<forall>c\<in>set (folderCore nfkd name). isWordChar c \<or> c = 45 \<or> c = 32"
    using s0 e by simp
qed

lemma str_Client: "str ''Client'' = [67, 108, 105, 101, 110, 116]"
  by (simp add: str_def)

text \<open>
  Claim C10. For every normalisation table and every name, missing and empty included,
  \<open>safeFolderName\<close> returns a non-empty string of at most 100 code units that does not start
  with a dot and does not end with a dot or a hash (46 is the dot, 35 the hash); a name whose
  normal form is empty or is \<open>forms\<close> in any letter case gives \<open>Client\<close>.
\<close>

theorem safeFolderName_wellformed:
  "let r = safeFolderName nfkd name in
     r \<noteq> [] \<and> length r \<le> 100 \<and> hd r \<noteq> 46 \<and> last r \<noteq> 46 \<and> last r \<noteq> 35 \<and>
     (folderCore nfkd name = [] \<or> toLowerCase (folderCore nfkd name) = str ''forms''
        \<longrightarrow> r = str ''Client'')"
proof -
  define s where "s = folderCore nfkd name"
  define s' where "s' = (if s = [] \<or> toLowerCase s = str ''forms'' then str ''Client'' else s)"
  define r where "r = safeFolderName nfkd name"
  have r: "r = (if length s' > 100 then trim (take 100 s') else s')"
    by (simp add: r_def safeFolderName_def s_def s'_def Let_def)
  have cs: "\<forall>c\<in>set s. isWordChar c \<or> c = 45 \<or> c = 32"
    unfolding s_def by (rule folderCore_charset)
  have cs': "\<forall>c\<in>set s'. isWordChar c \<or> c = 45 \<or> c = 32"
    using cs by (auto simp: s'_def str_Client isWordChar_def)
  have ne': "s' \<noteq> []"
    by (auto simp: s'_def str_Client)
  have hd': "\<not> isWs (hd s')"
  proof (cases "s = [] \<or> toLowerCase s = str ''forms''")
    case True
    then show ?thesis by (simp add: s'_def str_Client isWs_def)
  next
    case False
    then have "s' = s" "s \<noteq> []" by (auto simp: s'_def)
    then show ?thesis
      using trim_hd[of "collapseWs (map (\<lambda>c. if isWordChar c \<or> c = 45 then c else 32)
                          (nfkd (nameOrClient name)))"]
      by (simp add: s_def folderCore_eq)
  qed
  have rne: "r \<noteq> []"
    using ne' hd' trim_take_nonempty[of s' 100] by (simp add: r)
  have rset: "set r \<subseteq> set s'"
    using set_trim[of "take 100 s'"] set_take_subset[of 100 s'] by (auto simp: r)
  have rlen: "length r \<le> 100"
    using trim_length[of "take 100 s'"] by (auto simp: r)
  have "hd r \<in> set r" "last r \<in> set r"
    using rne by auto
  then have "isWordChar (hd r) \<or> hd r = 45 \<or> hd r = 32"
    "isWordChar (last r) \<or> last r = 45 \<or> last r = 32"
    using rset cs' by blast+
  then have hl: "hd r \<noteq> 46" "last r \<noteq> 46" "last r \<noteq> 35"
    by (auto simp: isWordChar_def)
  have fb: "s = [] \<or> toLowerCase s = str ''forms'' \<longrightarrow> r = str ''Client''"
    by (auto simp: r s'_def str_Client)
  show ?thesis
    using rne rlen hl fb unfolding r_def s_def Let_def by blast
qed

text \<open>The name \<open>Forms\<close> normalises to itself, lower-cases to \<open>forms\<close>, and gives \<open>Client\<close>.\<close>

theorem safeFolderName_wellformed_witness:
  "toLowerCase (folderCore id (Some (str ''Forms''))) = str ''forms''
   \<and> safeFolderName id (Some (str ''Forms'')) = str ''Client''"
proof -
  have h: "toLowerCase (folderCore id (Some (str ''Forms''))) = str ''forms''"
    by (simp add: folderCore_def nameOrClient_def str_def trim_def isWs_def isWordChar_def
        toLowerCase_def Let_def)
  show ?thesis
    using h safeFolderName_wellformed[of id "Some (str ''Forms'')"] by (simp add: Let_def)
qed

section \<open>The page resolver\<close>

text \<open>
  Claim C7. On a document of at least one page, a requested page number \<open>w\<close> resolves to the
  index \<open>w - 1\<close> when \<open>1 \<le> w \<le> count\<close>, to 0 when \<open>w < 1\<close> and to \<open>count - 1\<close> when
  \<open>w > count\<close>; the selector \<open>'last'\<close> resolves to \<open>count - 1\<close>. The warning is logged exactly
  for a number outside \<open>[1, count]\<close>.
\<close>

theorem getSafePage_clamps:
  "1 \<le> count \<Longrightarrow>
     getSafePage count (PNum w) =
       Inr (nat (if 1 \<le> w \<and> w \<le> int count then w - 1 else if w < 1 then 0 else int count - 1),
            \<not> (1 \<le> w \<and> w \<le> int count))
     \<and> getSafePage count PLast = Inr (count - 1, False)"
  by (auto simp: getSafePage_def Let_def)

theorem getSafePage_clamps_witness:
  "getSafePage 4 (PNum 6) = Inr (3, True) \<and> getSafePage 4 PLast = Inr (3, False)"
  using getSafePage_clamps[of 4 6] by simp

section \<open>Word wrapping: properties\<close>

lemma splitWs_ne: "splitWs s \<noteq> []"
  by (induction s rule: splitWs.induct) (auto split: list.splits)

lemma splitWs_noWs: "\<forall>t\<in>set (splitWs s). \<forall>c\<in>set t. \<not> isWs c"
proof (induction s)
  case Nil
  then show ?case by simp
next
  case (Cons c cs)
  show ?case
  proof (cases "isWs c")
    case True
    then have "set (splitWs (c # cs)) \<subseteq> insert [] (set (splitWs cs))" by auto
    then show ?thesis using Cons by auto
  next
    case False
    obtain t ts where tts: "splitWs cs = t # ts" using splitWs_ne[of cs] by (cases "splitWs cs") auto
    then have "splitWs (c # cs) = (c # t) # ts" using False by simp
    then show ?thesis using Cons tts False by auto
  qed
qed

lemma splitWs_single: "\<forall>c\<in>set t. \<not> isWs c \<Longrightarrow> splitWs t = [t]"
  by (induction t) auto

lemma hd_splitWs_ws: "s \<noteq> [] \<Longrightarrow> isWs (hd s) \<Longrightarrow> hd (splitWs s) = []"
  by (induction s rule: splitWs.induct) auto

lemma wordsOf_ws_cons: "isWs c \<Longrightarrow> wordsOf (c # b) = wordsOf b"
  by (auto simp: wordsOf_def)

lemma splitWs_ws_cons: "isWs c \<Longrightarrow> splitWs (c # b) = [] # tl (splitWs (c # b))"
  using hd_splitWs_ws[of "c # b"] splitWs_ne[of "c # b"] by (cases "splitWs (c # b)") auto

lemma tl_ws_cons: "isWs c \<Longrightarrow> filter (\<lambda>t. t \<noteq> []) (tl (splitWs (c # b))) = wordsOf b"
  using splitWs_ws_cons[of c b] wordsOf_ws_cons[of c b] unfolding wordsOf_def
  by (metis (mono_tags, lifting) filter.simps(2))

lemma splitWs_app: "isWs c \<Longrightarrow> hd (splitWs (a @ c # b)) = hd (splitWs a) \<and>
   filter (\<lambda>t. t \<noteq> []) (tl (splitWs (a @ c # b))) = filter (\<lambda>t. t \<noteq> []) (tl (splitWs a)) @ wordsOf b"
proof (induction a)
  case Nil
  then show ?case using hd_splitWs_ws[of "c # b"] tl_ws_cons[of c b] by simp
next
  case (Cons x a)
  obtain t ts where tts: "splitWs a = t # ts" using splitWs_ne[of a] by (cases "splitWs a") auto
  obtain u us where uus: "splitWs (a @ c # b) = u # us" using splitWs_ne[of "a @ c # b"] by (cases "splitWs (a @ c # b)") auto
  have ih: "u = t" "filter (\<lambda>t. t \<noteq> []) us = filter (\<lambda>t. t \<noteq> []) ts @ wordsOf b"
    using Cons tts uus by auto
  show ?case
  proof (cases "isWs x")
    case False
    then show ?thesis using tts uus ih by simp
  next
    case True
    have 1: "splitWs (x # a) = [] # tl (splitWs (x # a))" "splitWs (x # a @ c # b) = [] # tl (splitWs (x # a @ c # b))"
      using splitWs_ws_cons[OF True] by blast+
    have 2: "filter (\<lambda>t. t \<noteq> []) (tl (splitWs (x # a))) = wordsOf a"
       "filter (\<lambda>t. t \<noteq> []) (tl (splitWs (x # a @ c # b))) = wordsOf (a @ c # b)"
      using tl_ws_cons[OF True] by blast+
    have 3: "wordsOf (a @ c # b) = wordsOf a @ wordsOf b"
      using tts uus ih by (simp add: wordsOf_def[of "a @ c # b"] wordsOf_def[of a])
    show ?thesis using 1 2 3 by (metis append_Cons list.sel(1))
  qed
qed

lemma wordsOf_app: "isWs c \<Longrightarrow> wordsOf (a @ c # b) = wordsOf a @ wordsOf b"
proof -
  assume c: "isWs c"
  obtain t ts where tts: "splitWs a = t # ts" using splitWs_ne[of a] by (cases "splitWs a") auto
  obtain u us where uus: "splitWs (a @ c # b) = u # us" using splitWs_ne[of "a @ c # b"] by (cases "splitWs (a @ c # b)") auto
  show ?thesis using splitWs_app[OF c, of a b] tts uus
    by (simp add: wordsOf_def[of "a @ c # b"] wordsOf_def[of a])
qed

lemma wordsOf_token: "\<forall>c\<in>set w. \<not> isWs c \<Longrightarrow> wordsOf w = (if w = [] then [] else [w])"
  by (simp add: wordsOf_def splitWs_single)

lemma concat_tokens: "\<forall>w\<in>set ws. \<forall>c\<in>set w. \<not> isWs c \<Longrightarrow> concat (map wordsOf ws) = filter (\<lambda>t. t \<noteq> []) ws"
  by (induction ws) (auto simp: wordsOf_token)


lemma wrapLoop_step:
  "wrapLoop wd sz mw (w # ws) line lines =
     (if wd (if line \<noteq> [] then line @ [32] @ w else w) sz \<le> mw
      then wrapLoop wd sz mw ws (if line \<noteq> [] then line @ [32] @ w else w) lines
      else wrapLoop wd sz mw ws w (if line \<noteq> [] then lines @ [line] else lines))"
  by (simp add: Let_def)

declare wrapLoop.simps(2) [simp del]

lemma wrapLoop_words:
  "\<forall>w\<in>set ws. \<forall>c\<in>set w. \<not> isWs c \<Longrightarrow>
   concat (map wordsOf (wrapLoop wd sz mw ws line lines)) =
     concat (map wordsOf lines) @ wordsOf line @ concat (map wordsOf ws)"
proof (induction ws arbitrary: line lines)
  case Nil
  then show ?case by (simp add: wordsOf_def)
next
  case (Cons w ws)
  let ?test = "if line \<noteq> [] then line @ [32] @ w else w"
  let ?push = "if line \<noteq> [] then lines @ [line] else lines"
  have ws32: "isWs 32" by (simp add: isWs_def)
  have e: "wordsOf [] = []" by (simp add: wordsOf_def)
  have a: "wordsOf ?test = wordsOf line @ wordsOf w"
    using wordsOf_app[OF ws32, of line w] e by simp
  have p: "concat (map wordsOf ?push) = concat (map wordsOf lines) @ wordsOf line"
    using e by simp
  have tl: "\<forall>w\<in>set ws. \<forall>c\<in>set w. \<not> isWs c" using Cons.prems by simp
  show ?case
  proof (cases "wd ?test sz \<le> mw")
    case True
    then have "wrapLoop wd sz mw (w # ws) line lines = wrapLoop wd sz mw ws ?test lines"
      by (simp only: wrapLoop_step if_True)
    then show ?thesis using Cons.IH[OF tl, of ?test lines] a by simp
  next
    case False
    then have "wrapLoop wd sz mw (w # ws) line lines = wrapLoop wd sz mw ws w ?push"
      by (simp only: wrapLoop_step if_False)
    then show ?thesis using Cons.IH[OF tl, of w ?push] p by simp
  qed
qed

lemma wrapLoop_nonempty:
  "\<forall>l\<in>set lines. l \<noteq> [] \<Longrightarrow> \<forall>l\<in>set (wrapLoop wd sz mw ws line lines). l \<noteq> []"
proof (induction ws arbitrary: line lines)
  case Nil
  then show ?case by simp
next
  case (Cons w ws)
  let ?test = "if line \<noteq> [] then line @ [32] @ w else w"
  let ?push = "if line \<noteq> [] then lines @ [line] else lines"
  have p: "\<forall>l\<in>set ?push. l \<noteq> []" using Cons.prems by simp
  show ?case
  proof (cases "wd ?test sz \<le> mw")
    case True
    then have eq: "wrapLoop wd sz mw (w # ws) line lines = wrapLoop wd sz mw ws ?test lines"
      by (simp only: wrapLoop_step if_True)
    show ?thesis unfolding eq by (rule Cons.IH[OF Cons.prems])
  next
    case False
    then have eq: "wrapLoop wd sz mw (w # ws) line lines = wrapLoop wd sz mw ws w ?push"
      by (simp only: wrapLoop_step if_False)
    show ?thesis unfolding eq by (rule Cons.IH[OF p])
  qed
qed

lemma wrapLoop_width:
  "\<forall>l\<in>set lines. wd l sz \<le> mw \<or> l \<in> W \<Longrightarrow> line = [] \<or> wd line sz \<le> mw \<or> line \<in> W \<Longrightarrow> set ws \<subseteq> W \<Longrightarrow>
   \<forall>l\<in>set (wrapLoop wd sz mw ws line lines). wd l sz \<le> mw \<or> l \<in> W"
proof (induction ws arbitrary: line lines)
  case Nil
  then show ?case by auto
next
  case (Cons w ws)
  let ?test = "if line \<noteq> [] then line @ [32] @ w else w"
  let ?push = "if line \<noteq> [] then lines @ [line] else lines"
  have p: "\<forall>l\<in>set ?push. wd l sz \<le> mw \<or> l \<in> W" using Cons.prems by auto
  have w: "w \<in> W" "set ws \<subseteq> W" using Cons.prems by auto
  show ?case
  proof (cases "wd ?test sz \<le> mw")
    case True
    then have "wrapLoop wd sz mw (w # ws) line lines = wrapLoop wd sz mw ws ?test lines"
      by (simp only: wrapLoop_step if_True)
    then show ?thesis using Cons.IH[OF Cons.prems(1) _ w(2), of ?test] True by simp
  next
    case False
    then have "wrapLoop wd sz mw (w # ws) line lines = wrapLoop wd sz mw ws w ?push"
      by (simp only: wrapLoop_step if_False)
    then show ?thesis using Cons.IH[OF p _ w(2), of w] w(1) by simp
  qed
qed


text \<open>
  Claim C8, as the loop implements it. For a positive \<open>maxWidth\<close> \<open>W\<close> every line is
  non-empty, the words of the lines in order are the words of the text, and a line is at most
  \<open>W\<close> wide or is one single word of the text: the loop never breaks inside a word, so a
  word wider than \<open>W\<close> stands on a line of its own.
\<close>

theorem wrapLines_greedy:
  "0 < W \<Longrightarrow>
     (let ls = wrapLines wd txt sz (Some W) in
        (\<forall>l\<in>set ls. l \<noteq> [] \<and> (wd l sz \<le> W \<or> l \<in> set (wordsOf txt)))
        \<and> concat (map wordsOf ls) = wordsOf txt)"
proof -
  assume W: "0 < W"
  define ls where "ls = wrapLoop wd sz W (splitWs txt) [] []"
  have ls: "wrapLines wd txt sz (Some W) = ls"
    using W by (simp add: wrapLines_def ls_def)
  have tok: "\<forall>w\<in>set (splitWs txt). \<forall>c\<in>set w. \<not> isWs c"
    by (rule splitWs_noWs)
  have ne: "\<forall>l\<in>set ls. l \<noteq> []"
    unfolding ls_def by (rule wrapLoop_nonempty) simp
  have wd: "\<forall>l\<in>set ls. wd l sz \<le> W \<or> l \<in> set (splitWs txt)"
    unfolding ls_def by (rule wrapLoop_width) simp_all
  have words: "concat (map wordsOf ls) = wordsOf txt"
    unfolding ls_def using wrapLoop_words[OF tok, of wd sz W "[]" "[]"] concat_tokens[OF tok]
    by (simp add: wordsOf_def)
  have "\<forall>l\<in>set ls. l \<noteq> [] \<and> (wd l sz \<le> W \<or> l \<in> set (wordsOf txt))"
    using ne wd by (auto simp: wordsOf_def)
  then show ?thesis using words ls by (simp add: Let_def)
qed

text \<open>Four words at size 10 under the sample metric, 30 wide: two lines of 25 and 30.\<close>

theorem wrapLines_greedy_witness:
  "(0::real) < 30
   \<and> wrapLines halfEm (str ''to be or not'') 10 (Some 30) = [str ''to be'', str ''or not'']
   \<and> concat (map wordsOf (wrapLines halfEm (str ''to be or not'') 10 (Some 30)))
       = wordsOf (str ''to be or not'')"
proof -
  have e: "wrapLines halfEm (str ''to be or not'') 10 (Some 30) = [str ''to be'', str ''or not'']"
    by (simp add: str_def wrapLines_def isWs_def halfEm_def wrapLoop_step)
  show ?thesis
    using e wrapLines_greedy[of 30 halfEm "str ''to be or not''" 10] by (simp add: Let_def)
qed

text \<open>
  Claim C8 as stated fails: the one word \<open>abcdef\<close> measures 30 at size 10 and is drawn as
  one line although \<open>maxWidth\<close> is 20.
\<close>

theorem wrapLines_long_word:
  "wrapLines halfEm (str ''abcdef'') 10 (Some 20) = [str ''abcdef'']
   \<and> \<not> halfEm (str ''abcdef'') 10 \<le> 20"
  by (simp add: str_def wrapLines_def isWs_def halfEm_def wrapLoop_step)

section \<open>Signature geometry: properties\<close>

lemma numOr_spread_noVal: "\<not> isVal a \<Longrightarrow> \<not> isVal b \<Longrightarrow> numOr (spread a b) d = d"
  by (cases a; cases b) (simp_all add: isVal_def numOr_def spread_def)

lemma getSafePage_total: "0 < n \<Longrightarrow> p \<noteq> PNone \<Longrightarrow> \<exists>i w. getSafePage n p = Inr (i, w) \<and> i < n"
  by (cases p) (auto simp: getSafePage_def Let_def)

text \<open>
  Claim C6, as the code has it. With no width and no height in the template anchor and in the
  override, \<open>resolveSignatureCoords\<close> fills in 150 and 50, so on a document with a page the
  image is drawn 150 by 50 whatever its native size: the fallback \<open>coords.width || png.width\<close>
  of the stamper never sees a missing width.
\<close>

theorem stamp_default_size:
  assumes "pdfDoc \<noteq> []" "noSize t" "noSize ov"
  shows "\<exists>d. stampSignatureWithTime pdfDoc (Some (pw, ph)) t ov = Inr d
           \<and> dwidth d = 150 \<and> dheight d = 50"
proof -
  define tc where "tc = (case t of None \<Rightarrow> noCoords | Some c \<Rightarrow> c)"
  define oc where "oc = (case ov of None \<Rightarrow> noCoords | Some c \<Rightarrow> c)"
  define page where "page = (if cpage oc \<noteq> PNone then cpage oc else if cpage tc \<noteq> PNone then cpage tc else PLast)"
  have nv: "\<not> isVal (cwidth tc)" "\<not> isVal (cheight tc)" "\<not> isVal (cwidth oc)" "\<not> isVal (cheight oc)"
    using assms(2,3) by (auto simp: noSize_def tc_def oc_def noCoords_def isVal_def split: option.splits)
  have w: "numOr (spread (cwidth tc) (cwidth oc)) 150 = 150"
    and h: "numOr (spread (cheight tc) (cheight oc)) 50 = 50"
    using nv by (simp_all add: numOr_spread_noVal)
  have "page \<noteq> PNone" by (simp add: page_def)
  then obtain i wn where g: "getSafePage (length pdfDoc) page = Inr (i, wn)"
    using getSafePage_total[of "length pdfDoc" page] assms(1) by auto
  obtain c where c: "resolveSignatureCoords pdfDoc t ov = Inr c" "rwidth c = 150" "rheight c = 50" "rpage c = page"
    using g w h by (simp add: resolveSignatureCoords_def tc_def[symmetric] oc_def[symmetric] page_def[symmetric] Let_def)
  show ?thesis using c g by (simp add: stampSignatureWithTime_def Let_def)
qed

theorem stamp_default_size_witness:
  "\<exists>d. stampSignatureWithTime [(595, 842)] (Some (300, 100)) None None = Inr d
           \<and> dwidth d = 150 \<and> dheight d = 50"
  using stamp_default_size[of "[(595, 842)]" None None 300 100] by (simp add: noSize_def)

text \<open>
  Claim C6 as stated fails: a 300 by 100 image stamped on an A4 page with no width and
  height given is drawn 150 by 50.
\<close>

theorem stamp_not_native_size:
  "(case stampSignatureWithTime [(595, 842)] (Some (300, 100)) None None of
      Inl e \<Rightarrow> False
    | Inr d \<Rightarrow> dwidth d = 150 \<and> dheight d = 50 \<and> dwidth d \<noteq> 300 \<and> dheight d \<noteq> 100)"
  by (simp add: stampSignatureWithTime_def resolveSignatureCoords_def getSafePage_def noCoords_def
      numOr_def spread_def finiteOr0_def originOr_def Let_def)


section \<open>Template input mapping: properties\<close>

lemma baseLiteral_clock:
  "submittedAt ad \<noteq> None \<Longrightarrow> baseLiteral (clk\<lparr>dateNow := t\<rparr>) ad = baseLiteral clk ad"
  by (auto simp: baseLiteral_def)

lemma addOnText_clock: "addOnText (clk\<lparr>dateNow := t\<rparr>) = addOnText clk"
  by (rule ext) (simp add: addOnText_def split: option.splits)

lemma dollars_clock: "dollars (clk\<lparr>dateNow := t\<rparr>) = dollars clk"
  by (rule ext) (simp add: dollars_def split: option.splits)

lemma pricing_clock: "pricingAssignments (clk\<lparr>dateNow := t\<rparr>) sm = pricingAssignments clk sm"
  by (simp add: pricingAssignments_def addOnText_clock dollars_clock cong: option.case_cong)

text \<open>
  Claim C9, as the code has it. The mapper reads the clock twice: for \<open>submittedAt\<close> when the
  record has none, and for \<open>executedDate\<close> of the template \<open>ConfidentialityAgreement\<close>. For
  every other template name and every record that has \<open>submittedAt\<close> the output is the same
  whatever the clock reads. The mapper assigns to \<open>base\<close> only: no statement of its body
  writes to \<open>agreementData\<close> or \<open>summaryData\<close>, which is why they are plain arguments here.
\<close>

theorem buildTemplateInput_clock_free:
  "templateName \<noteq> str ''ConfidentialityAgreement'' \<Longrightarrow> submittedAt agreementData \<noteq> None \<Longrightarrow>
     buildTemplateInput (clk\<lparr>dateNow := t\<rparr>) templateName agreementData summaryData
       = buildTemplateInput clk templateName agreementData summaryData"
proof -
  assume a: "templateName \<noteq> str ''ConfidentialityAgreement''"
    and b: "submittedAt agreementData \<noteq> None"
  have 1: "baseLiteral (clk\<lparr>dateNow := t\<rparr>) agreementData = baseLiteral clk agreementData"
    using b by (rule baseLiteral_clock)
  show ?thesis
    unfolding buildTemplateInput_def 1 pricing_clock by (simp only: a if_False)
qed

lemma getp_assign_same: "getp (assign k f b) k = f b"
  by (simp add: getp_def assign_def update_conv')

lemma executedDate_eq:
  "getp (buildTemplateInput clk (str ''ConfidentialityAgreement'') ad sm) ''executedDate''
     = toLocaleDateString clk (dateNow clk)"
  unfolding buildTemplateInput_def
  by (simp only: simp_thms if_True fold_append fold.simps o_apply id_apply getp_assign_same)

text \<open>
  Claim C9 as stated fails: for the template \<open>ConfidentialityAgreement\<close> two invocations with
  the same record and no summary, one day apart, give different values of \<open>executedDate\<close>.
\<close>

theorem buildTemplateInput_reads_clock:
  "getp (buildTemplateInput (sampleClock 0) (str ''ConfidentialityAgreement'')
            \<lparr>attrs = [], submittedAt = Some 0\<rparr> None) ''executedDate'' = str ''1/1/1970''
   \<and> getp (buildTemplateInput (sampleClock 86400000) (str ''ConfidentialityAgreement'')
            \<lparr>attrs = [], submittedAt = Some 0\<rparr> None) ''executedDate'' = str ''1/2/1970''
   \<and> buildTemplateInput (sampleClock 0) (str ''ConfidentialityAgreement'')
            \<lparr>attrs = [], submittedAt = Some 0\<rparr> None
       \<noteq> buildTemplateInput (sampleClock 86400000) (str ''ConfidentialityAgreement'')
            \<lparr>attrs = [], submittedAt = Some 0\<rparr> None"
proof -
  let ?a = "buildTemplateInput (sampleClock 0) (str ''ConfidentialityAgreement'')
            \<lparr>attrs = [], submittedAt = Some 0\<rparr> None"
  let ?b = "buildTemplateInput (sampleClock 86400000) (str ''ConfidentialityAgreement'')
            \<lparr>attrs = [], submittedAt = Some 0\<rparr> None"
  have a: "getp ?a ''executedDate'' = str ''1/1/1970''"
    by (simp add: executedDate_eq sampleClock_def)
  have b: "getp ?b ''executedDate'' = str ''1/2/1970''"
    by (simp add: executedDate_eq sampleClock_def)
  have "str ''1/1/1970'' \<noteq> str ''1/2/1970''"
    by (simp add: str_def)
  then have "?a \<noteq> ?b"
    using a b by metis
  then show ?thesis
    using a b by blast
qed

text \<open>The template \<open>ServiceAgreement\<close> on a record submitted at the epoch, one day apart.\<close>

theorem buildTemplateInput_clock_free_witness:
  "str ''ServiceAgreement'' \<noteq> str ''ConfidentialityAgreement''
   \<and> buildTemplateInput (sampleClock 86400000) (str ''ServiceAgreement'')
         \<lparr>attrs = [(''businessName'', str ''Acme'')], submittedAt = Some 0\<rparr> None
       = buildTemplateInput (sampleClock 0) (str ''ServiceAgreement'')
         \<lparr>attrs = [(''businessName'', str ''Acme'')], submittedAt = Some 0\<rparr> None"
proof -
  have n: "str ''ServiceAgreement'' \<noteq> str ''ConfidentialityAgreement''"
    by (simp add: str_def)
  have c: "sampleClock 86400000 = (sampleClock 0)\<lparr>dateNow := 86400000\<rparr>"
    by (simp add: sampleClock_def)
  show ?thesis
    using n buildTemplateInput_clock_free[where templateName = "str ''ServiceAgreement''"
        and agreementData = "\<lparr>attrs = [(''businessName'', str ''Acme'')], submittedAt = Some 0\<rparr>"
        and clk = "sampleClock 0" and t = 86400000 and summaryData = None]
    by (simp add: c)
qed


section \<open>Lists\<close>





section \<open>The sample deployment: evaluation\<close>

lemma sample_verify_client:
  "jwt_verify sampleEnv (reqToken (sampleRequest (str ''client-token''))) = Inr (sampleClaims Client None)"
  by (simp add: sampleEnv_def sampleRequest_def)

lemma sample_verify_director:
  "jwt_verify sampleEnv (reqToken (sampleRequest (str ''director-token'')))
     = Inr (sampleClaims Director (Some 0))"
  by (simp add: sampleEnv_def sampleRequest_def str_def)

lemma sample_truthy: "truthy (reqSignature (sampleRequest tok))"
  by (simp add: sampleRequest_def truthy_def str_def)

lemma sample_agreement:
  "agreements (sampleWorld docs fs) (agid (sampleClaims r idx)) = Some (sampleAgreement docs)"
  by (simp add: sampleWorld_def sampleClaims_def)

lemma sample_claims [simp]:
  "role (sampleClaims r idx) = r" "directorIndex (sampleClaims r idx) = idx"
  "docName (sampleClaims r idx) = str ''ServiceAgreement''"
  by (simp_all add: sampleClaims_def)

lemma sample_documents [simp]: "documents (sampleAgreement docs) = docs"
  by (simp add: sampleAgreement_def)

lemma sample_dname [simp]: "dname (sampleDocument n) = n"
  by (simp add: sampleDocument_def)

section \<open>Rejections\<close>

text \<open>
  Claim C2. A director-sign request (it carries a signature, and its token verifies with the
  role \<open>director\<close>) for a document whose \<open>clientSigned\<close> flag is false is answered with
  status 400 and the message \<open>Client must sign first\<close>, whatever \<open>directorIndex\<close> the token
  holds, and the store and the disk are left as they were. The document is the first one of
  the agreement with the token's name, as \<open>find\<close> returns it.
\<close>

theorem director_needs_client:
  assumes "truthy (reqSignature req)"
    and "jwt_verify e (reqToken req) = Inr c" and "role c = Director"
    and "agreements w (agid c) = Some ag"
    and "findIndex (\<lambda>d. dname d = docName c) (documents ag) = Some i"
    and "\<not> clientSigned (documents ag ! i)"
  shows "directorSign e w req = (Rejected 400 (str ''Client must sign first''), w)"
  using assms by (simp add: directorSign_def Let_def)

text \<open>The first director's token on an agreement whose one document the client has not signed.\<close>

theorem director_needs_client_witness:
  "directorSign sampleEnv (sampleWorld [sampleDocument (str ''ServiceAgreement'')] {})
       (sampleRequest (str ''director-token''))
     = (Rejected 400 (str ''Client must sign first''),
        sampleWorld [sampleDocument (str ''ServiceAgreement'')] {})"
  using director_needs_client[OF sample_truthy sample_verify_director _ sample_agreement, where i = 0]
  by (simp add: sampleDocument_def)

text \<open>
  Claim C1. Once the target of a token is signed, a signing request that presents a token for
  that target is rejected and nothing is persisted. For a client token the target is the
  document's \<open>clientSigned\<close> flag and the answer is 400, \<open>Document already signed\<close>. For a
  director token the target is the slot at the token's \<open>directorIndex\<close> (0 when the token has
  none) and the answer is 400, \<open>Document already signed by you\<close>; on an agreement whose
  document has a signed slot but no client signature the earlier check answers 400,
  \<open>Client must sign first\<close>. All three are the handlers' precondition rejections.
\<close>

theorem consumed_token_rejected:
  assumes "truthy (reqSignature req)"
    and "jwt_verify e (reqToken req) = Inr c"
    and "agreements w (agid c) = Some ag"
    and "findIndex (\<lambda>d. dname d = docName c) (documents ag) = Some i"
  shows "(role c = Client \<and> clientSigned (documents ag ! i)
            \<longrightarrow> clientSign e w req = (Rejected 400 (str ''Document already signed''), w))
       \<and> (role c = Director
            \<and> (case directorIndex c of None \<Rightarrow> 0 | Some n \<Rightarrow> n) < length (directors (documents ag ! i))
            \<and> signed (directors (documents ag ! i) ! (case directorIndex c of None \<Rightarrow> 0 | Some n \<Rightarrow> n))
            \<longrightarrow> directorSign e w req =
                  (Rejected 400 (if clientSigned (documents ag ! i)
                                 then str ''Document already signed by you''
                                 else str ''Client must sign first''), w))"
  using assms by (simp add: clientSign_def directorSign_def Let_def)

text \<open>A document signed by the client and by the first director: both tokens are refused.\<close>

theorem consumed_token_rejected_witness:
  "clientSign sampleEnv
       (sampleWorld [(sampleDocument (str ''ServiceAgreement''))
                       \<lparr>clientSigned := True, directors := [signedSlot]\<rparr>] {})
       (sampleRequest (str ''client-token''))
     = (Rejected 400 (str ''Document already signed''),
        sampleWorld [(sampleDocument (str ''ServiceAgreement''))
                       \<lparr>clientSigned := True, directors := [signedSlot]\<rparr>] {})
   \<and> directorSign sampleEnv
       (sampleWorld [(sampleDocument (str ''ServiceAgreement''))
                       \<lparr>clientSigned := True, directors := [signedSlot]\<rparr>] {})
       (sampleRequest (str ''director-token''))
     = (Rejected 400 (str ''Document already signed by you''),
        sampleWorld [(sampleDocument (str ''ServiceAgreement''))
                       \<lparr>clientSigned := True, directors := [signedSlot]\<rparr>] {})"
proof -
  let ?w = "sampleWorld [(sampleDocument (str ''ServiceAgreement''))
                       \<lparr>clientSigned := True, directors := [signedSlot]\<rparr>] {}"
  have i: "findIndex (\<lambda>d. dname d = str ''ServiceAgreement'')
             [(sampleDocument (str ''ServiceAgreement''))\<lparr>clientSigned := True, directors := [signedSlot]\<rparr>] = Some 0"
    by (simp add: sampleDocument_def)
  have c: "clientSign sampleEnv ?w (sampleRequest (str ''client-token''))
     = (Rejected 400 (str ''Document already signed''), ?w)"
    using consumed_token_rejected[OF sample_truthy sample_verify_client sample_agreement, where i = 0] i
    by (simp add: sampleDocument_def)
  have d: "directorSign sampleEnv ?w (sampleRequest (str ''director-token''))
     = (Rejected 400 (str ''Document already signed by you''), ?w)"
    using consumed_token_rejected[OF sample_truthy sample_verify_director sample_agreement, where i = 0] i
    by (simp add: sampleDocument_def signedSlot_def)
  show ?thesis using c d by simp
qed


section \<open>The client chain\<close>













lemma sample_signature:
  "reqSignature (sampleRequest tok) = Some (str ''data:image/png;base64,AAAA'')"
  by (simp add: sampleRequest_def)



section \<open>Self-healing and the recorded draft path\<close>

text \<open>
  \<open>ensureDraftExists\<close> itself records the regenerated path only when the document has none
  (line 531).
\<close>

lemma ensureDraftExists_fills_if_empty:
  assumes "ensureDraftExists e w aid ag i = Inr (out, ag', w')" and "i < length (documents ag)"
  shows "draftPdfPath (documents ag' ! i)
           = (if truthy (draftPdfPath (documents ag ! i)) then draftPdfPath (documents ag ! i)
              else Some out)"
  using assms
  by (auto simp: ensureDraftExists_def Let_def split: option.splits if_splits)

text \<open>
  Claim C5. When the self-healer regenerates a missing draft, the regenerated path is written
  into \<open>draftPdfPath\<close> only if that field was empty, on every path that regenerates.
  The client signing handler does otherwise. On the agreement \<open>a1\<close> with the four drafted
  documents, whose draft files are gone from the disk, a client signature for
  \<open>ServiceAgreement\<close> is accepted and leaves \<open>draftPdfPath\<close> of that document at the
  regenerated file: lines 1002 and 1003 assign it after the healer returns, whatever it held.
  The preview of the same document on the same store streams the regenerated file and keeps
  the recorded path.
\<close>

theorem client_sign_replaces_draft_path:
  "map draftPdfPath samplePack
     = [Some (str ''/app/pdfs/draft-ServiceAgreement.pdf''),
        Some (str ''/app/pdfs/draft-CustomerInformation.pdf''),
        Some (str ''/app/pdfs/draft-PricingSchedule.pdf''),
        Some (str ''/app/pdfs/draft-ConfidentialityAgreement.pdf'')]
   \<and> fst (clientSign sampleEnv (sampleWorld samplePack {str ''/app/pdf-templates/Engagement-letter.pdf''}) (sampleRequest (str ''client-token'')))
       = NextDocToken (str ''token-for-CustomerInformation'')
   \<and> map draftPdfPath (documents (the (agreements
         (snd (clientSign sampleEnv (sampleWorld samplePack {str ''/app/pdf-templates/Engagement-letter.pdf''}) (sampleRequest (str ''client-token'')))) (str ''a1''))))
       = [Some (str ''/app/pdfs/rehydrated-ServiceAgreement-0.pdf''),
          Some (str ''/app/pdfs/draft-CustomerInformation.pdf''),
          Some (str ''/app/pdfs/draft-PricingSchedule.pdf''),
          Some (str ''/app/pdfs/draft-ConfidentialityAgreement.pdf'')]
   \<and> fst (preview sampleEnv (sampleWorld samplePack {str ''/app/pdf-templates/Engagement-letter.pdf''}) (str ''client-token''))
       = PdfStream (str ''/app/pdfs/rehydrated-ServiceAgreement-0.pdf'')
   \<and> map draftPdfPath (documents (the (agreements
         (snd (preview sampleEnv (sampleWorld samplePack {str ''/app/pdf-templates/Engagement-letter.pdf''}) (str ''client-token''))) (str ''a1''))))
       = map draftPdfPath samplePack"
proof -
  have a: "map draftPdfPath samplePack
     = [Some (str ''/app/pdfs/draft-ServiceAgreement.pdf''),
        Some (str ''/app/pdfs/draft-CustomerInformation.pdf''),
        Some (str ''/app/pdfs/draft-PricingSchedule.pdf''),
        Some (str ''/app/pdfs/draft-ConfidentialityAgreement.pdf'')]"
    by (simp add: samplePack_def sampleDocument_def str_def)
  have b: "fst (clientSign sampleEnv (sampleWorld samplePack {str ''/app/pdf-templates/Engagement-letter.pdf''}) (sampleRequest (str ''client-token'')))
       = NextDocToken (str ''token-for-CustomerInformation'')
   \<and> map draftPdfPath (documents (the (agreements
         (snd (clientSign sampleEnv (sampleWorld samplePack {str ''/app/pdf-templates/Engagement-letter.pdf''}) (sampleRequest (str ''client-token'')))) (str ''a1''))))
       = [Some (str ''/app/pdfs/rehydrated-ServiceAgreement-0.pdf''),
          Some (str ''/app/pdfs/draft-CustomerInformation.pdf''),
          Some (str ''/app/pdfs/draft-PricingSchedule.pdf''),
          Some (str ''/app/pdfs/draft-ConfidentialityAgreement.pdf'')]"
    by (simp add: clientSign_def clientBaseFile_def clientStamp_def clientChain_def
      ensureDraftExists_def findTemplate_def TEMPLATES_def template_ServiceAgreement_def
      PDF_TEMPLATES_DIR_def PDF_DIR_def pathJoin_def samplePack_def
      sampleEnv_def sampleRequest_def sampleClaims_def sampleWorld_def sampleAgreement_def
      sampleDocument_def sampleClock_def truthy_def decimal.simps
      saveAgreement_def writeFile_def Let_def str_def)
  have c: "fst (preview sampleEnv (sampleWorld samplePack {str ''/app/pdf-templates/Engagement-letter.pdf''}) (str ''client-token''))
       = PdfStream (str ''/app/pdfs/rehydrated-ServiceAgreement-0.pdf'')
   \<and> map draftPdfPath (documents (the (agreements
         (snd (preview sampleEnv (sampleWorld samplePack {str ''/app/pdf-templates/Engagement-letter.pdf''}) (str ''client-token''))) (str ''a1''))))
       = [Some (str ''/app/pdfs/draft-ServiceAgreement.pdf''),
        Some (str ''/app/pdfs/draft-CustomerInformation.pdf''),
        Some (str ''/app/pdfs/draft-PricingSchedule.pdf''),
        Some (str ''/app/pdfs/draft-ConfidentialityAgreement.pdf'')]"
    by (simp add: preview_def firstTruthy_def
      ensureDraftExists_def findTemplate_def TEMPLATES_def template_ServiceAgreement_def
      PDF_TEMPLATES_DIR_def PDF_DIR_def pathJoin_def samplePack_def
      sampleEnv_def sampleClaims_def sampleWorld_def sampleAgreement_def
      sampleDocument_def sampleClock_def truthy_def decimal.simps
      saveAgreement_def writeFile_def Let_def str_def)
  show ?thesis using a b c by simp
qed

theorem client_sign_replaces_draft_path_witness:
  "draftPdfPath (hd (documents (the (agreements
       (snd (clientSign sampleEnv (sampleWorld samplePack {str ''/app/pdf-templates/Engagement-letter.pdf''}) (sampleRequest (str ''client-token'')))) (str ''a1'')))))
     = Some (str ''/app/pdfs/rehydrated-ServiceAgreement-0.pdf'')
   \<and> draftPdfPath (hd samplePack) = Some (str ''/app/pdfs/draft-ServiceAgreement.pdf'')"
proof -
  have "hd (map draftPdfPath (documents (the (agreements
       (snd (clientSign sampleEnv (sampleWorld samplePack {str ''/app/pdf-templates/Engagement-letter.pdf''}) (sampleRequest (str ''client-token'')))) (str ''a1'')))))
     = Some (str ''/app/pdfs/rehydrated-ServiceAgreement-0.pdf'')
   \<and> hd (map draftPdfPath samplePack) = Some (str ''/app/pdfs/draft-ServiceAgreement.pdf'')"
    using client_sign_replaces_draft_path by simp
  moreover have "documents (the (agreements
       (snd (clientSign sampleEnv (sampleWorld samplePack {str ''/app/pdf-templates/Engagement-letter.pdf''}) (sampleRequest (str ''client-token'')))) (str ''a1''))) \<noteq> []"
    using client_sign_replaces_draft_path by auto
  moreover have "samplePack \<noteq> []" by (simp add: samplePack_def)
  ultimately show ?thesis by (simp add: hd_map)
qed

section \<open>The aggregate flags between requests\<close>


























section \<open>The aggregate flags in every persisted store\<close>







lemma storeSound_at: "storeSound w \<Longrightarrow> agreements w aid = Some ag \<Longrightarrow> flagsSound ag"
  by (auto simp: storeSound_def)
















section \<open>The client chain on the sample pack\<close>

























section \<open>The director chain on the sample pack\<close>















section \<open>The aggregate flags and the documents\<close>




end
